theory Spec2Isabelle
  imports Complex_Main "HOL-Library.Log_Nat"
begin

section \<open>The Go values the program computes with\<close>

text \<open>
  The source file \<^verbatim>\<open>src/main.go\<close> holds two snapshots of the program. The later one
  (the second \<^verbatim>\<open>package main\<close>, with \<^verbatim>\<open>sendEmail\<close> and the \<^verbatim>\<open>seen\<close> set in
  \<^verbatim>\<open>printAnalysis\<close>) is the program embedded here. \<^verbatim>\<open>currentRate\<close>,
  \<^verbatim>\<open>parseConfig\<close>, \<^verbatim>\<open>writeConfig\<close>, \<^verbatim>\<open>parseInvestmentLine\<close> and \<^verbatim>\<open>addInvestment\<close>
  are the same text in both snapshots.
\<close>

subsection \<open>float64\<close>

text \<open>
  A \<^verbatim>\<open>float64\<close> is a NaN, an infinity, a zero (both with their sign bit, \<open>True\<close> for
  negative) or a finite non-zero number, kept as the rational it denotes. \<open>Fin 0\<close> is
  not a value of the program: the zeros are \<open>Zero s\<close>.
\<close>

datatype float64 = NaN | Infty bool | Zero bool | Fin rat

definition pow2 :: "int \<Rightarrow> rat" where
  "pow2 k = (if 0 \<le> k then 2 ^ nat k else 1 / 2 ^ nat (- k))"

text \<open>\<open>ilog2 a\<close> is the integer \<open>e\<close> with \<open>2^e \<le> a < 2^(e+1)\<close>, for \<open>a > 0\<close>.\<close>

definition ilog2 :: "rat \<Rightarrow> int" where
  "ilog2 a =
     (case quotient_of a of (n, d) \<Rightarrow>
        let k = bitlen n - bitlen d
        in if pow2 k \<le> a then k else k - 1)"

text \<open>Rounding to the nearest integer, a tie to the even one.\<close>

definition round_half_even :: "rat \<Rightarrow> int" where
  "round_half_even x =
     (let f = \<lfloor>x\<rfloor>; r = x - of_int f
      in if r < 1 / 2 then f
         else if 1 / 2 < r then f + 1
         else if even f then f else f + 1)"

text \<open>
  \<open>round64 q\<close> is the \<^verbatim>\<open>float64\<close> nearest to \<open>q\<close> (IEEE 754 binary64, round to nearest,
  ties to even): 53 bits of precision, exponents from \<open>-1022\<close> (below it the spacing
  stays \<open>2^-1074\<close>, the subnormal numbers) to \<open>1023\<close>, overflow to an infinity (the
  rounded value reaches \<open>2^1024\<close>), underflow to a zero of the same sign.
\<close>

definition round64 :: "rat \<Rightarrow> float64" where
  "round64 q =
     (if q = 0 then Zero False
      else
        let s = (q < 0);
            a = \<bar>q\<bar>;
            e = max (ilog2 a) (- 1022);
            m = round_half_even (a / pow2 (e - 52));
            v = of_int m * pow2 (e - 52)
        in if m = 0 then Zero s
           else if 1023 < e \<or> (e = 1023 \<and> m = 2 ^ 53) then Infty s
           else Fin (if s then - v else v))"

definition isNaN :: "float64 \<Rightarrow> bool" where
  "isNaN x = (x = NaN)"

definition isInf :: "float64 \<Rightarrow> bool" where
  "isInf x = (case x of Infty s \<Rightarrow> True | _ \<Rightarrow> False)"

definition isFinite :: "float64 \<Rightarrow> bool" where
  "isFinite x = (case x of Zero s \<Rightarrow> True | Fin q \<Rightarrow> True | _ \<Rightarrow> False)"

text \<open>The sign bit (\<^verbatim>\<open>math.Signbit\<close>); a NaN is given none.\<close>

fun signbit :: "float64 \<Rightarrow> bool" where
  "signbit NaN = False"
| "signbit (Infty s) = s"
| "signbit (Zero s) = s"
| "signbit (Fin q) = (q < 0)"

text \<open>The number a finite value denotes.\<close>

fun val :: "float64 \<Rightarrow> rat" where
  "val (Fin q) = q"
| "val x = 0"

text \<open>A rounded result that is zero takes the sign the operation gives it.\<close>

definition signed :: "bool \<Rightarrow> float64 \<Rightarrow> float64" where
  "signed s x = (case x of Zero t \<Rightarrow> Zero s | _ \<Rightarrow> x)"

text \<open>Division \<^verbatim>\<open>x / y\<close>.\<close>

fun fdiv :: "float64 \<Rightarrow> float64 \<Rightarrow> float64" where
  "fdiv NaN y = NaN"
| "fdiv x NaN = NaN"
| "fdiv (Infty s) (Infty t) = NaN"
| "fdiv (Infty s) y = Infty (s \<noteq> signbit y)"
| "fdiv x (Infty t) = Zero (signbit x \<noteq> t)"
| "fdiv (Zero s) (Zero t) = NaN"
| "fdiv x (Zero t) = Infty (signbit x \<noteq> t)"
| "fdiv (Zero s) y = Zero (s \<noteq> signbit y)"
| "fdiv (Fin a) (Fin b) = signed ((a < 0) \<noteq> (b < 0)) (round64 (a / b))"

text \<open>Multiplication \<^verbatim>\<open>x * y\<close>.\<close>

fun fmul :: "float64 \<Rightarrow> float64 \<Rightarrow> float64" where
  "fmul NaN y = NaN"
| "fmul x NaN = NaN"
| "fmul (Infty s) (Zero t) = NaN"
| "fmul (Zero s) (Infty t) = NaN"
| "fmul (Infty s) y = Infty (s \<noteq> signbit y)"
| "fmul x (Infty t) = Infty (signbit x \<noteq> t)"
| "fmul (Zero s) y = Zero (s \<noteq> signbit y)"
| "fmul x (Zero t) = Zero (signbit x \<noteq> t)"
| "fmul (Fin a) (Fin b) = signed ((a < 0) \<noteq> (b < 0)) (round64 (a * b))"

text \<open>
  Addition \<^verbatim>\<open>x + y\<close>. An exact sum of zero is \<open>+0\<close> unless both operands are \<open>-0\<close>.
\<close>

fun fadd :: "float64 \<Rightarrow> float64 \<Rightarrow> float64" where
  "fadd NaN y = NaN"
| "fadd x NaN = NaN"
| "fadd (Infty s) (Infty t) = (if s = t then Infty s else NaN)"
| "fadd (Infty s) y = Infty s"
| "fadd x (Infty t) = Infty t"
| "fadd (Zero s) (Zero t) = Zero (s \<and> t)"
| "fadd (Zero s) y = y"
| "fadd x (Zero t) = x"
| "fadd (Fin a) (Fin b) = round64 (a + b)"

fun fneg :: "float64 \<Rightarrow> float64" where
  "fneg NaN = NaN"
| "fneg (Infty s) = Infty (\<not> s)"
| "fneg (Zero s) = Zero (\<not> s)"
| "fneg (Fin q) = Fin (- q)"

text \<open>Subtraction \<^verbatim>\<open>x - y\<close> is \<open>x + (-y)\<close>.\<close>

definition fsub :: "float64 \<Rightarrow> float64 \<Rightarrow> float64" where
  "fsub x y = fadd x (fneg y)"

text \<open>The conversion \<^verbatim>\<open>float64(n)\<close> of an integer.\<close>

definition float64_of_int :: "int \<Rightarrow> float64" where
  "float64_of_int n = round64 (of_int n)"

text \<open>The comparison \<^verbatim>\<open>|x| < 1\<close> of \<^verbatim>\<open>math.Abs(x) < 1\<close> (false on a NaN).\<close>

fun abs_lt_1 :: "float64 \<Rightarrow> bool" where
  "abs_lt_1 NaN = False"
| "abs_lt_1 (Infty s) = False"
| "abs_lt_1 (Zero s) = True"
| "abs_lt_1 (Fin q) = (\<bar>q\<bar> < 1)"

text \<open>\<^verbatim>\<open>x < 0\<close> and \<^verbatim>\<open>x == 0\<close> (both false on a NaN; \<open>-0 == 0\<close>).\<close>

fun lt_0 :: "float64 \<Rightarrow> bool" where
  "lt_0 NaN = False"
| "lt_0 (Infty s) = s"
| "lt_0 (Zero s) = False"
| "lt_0 (Fin q) = (q < 0)"

definition isZero :: "float64 \<Rightarrow> bool" where
  "isZero x = (case x of Zero s \<Rightarrow> True | _ \<Rightarrow> False)"

subsection \<open>math.Pow\<close>

text \<open>
  \<^verbatim>\<open>isOddInt\<close> of package \<^verbatim>\<open>math\<close>: the value is an odd integer. Infinities and
  NaN are not.
\<close>

fun isOddInt :: "float64 \<Rightarrow> bool" where
  "isOddInt (Fin q) = (of_int \<lfloor>q\<rfloor> = q \<and> odd \<lfloor>q\<rfloor>)"
| "isOddInt x = False"

text \<open>The branch \<^verbatim>\<open>case x == 0\<close> of \<^verbatim>\<open>math.Pow\<close>, for \<open>y\<close> neither zero nor NaN.\<close>

definition powZero :: "float64 \<Rightarrow> float64 \<Rightarrow> float64" where
  "powZero x y =
     (if lt_0 y then (if signbit x \<and> isOddInt y then Infty True else Infty False)
      else (if signbit x \<and> isOddInt y then x else Zero False))"

text \<open>
  \<^verbatim>\<open>math.Pow(x, y)\<close>, with the special cases in the order of its \<^verbatim>\<open>switch\<close>. What Go
  computes for a finite non-zero base and exponent outside these cases is not fixed by
  the language; it is the parameter \<open>pw\<close>, given the two numbers.
\<close>

definition Pow :: "(rat \<Rightarrow> rat \<Rightarrow> float64) \<Rightarrow> float64 \<Rightarrow> float64 \<Rightarrow> float64" where
  "Pow pw x y =
     (if isZero y \<or> x = Fin 1 then Fin 1
      else if y = Fin 1 then x
      else if isNaN x \<or> isNaN y then NaN
      else if isZero x then powZero x y
      else if isInf y then
        (if x = Fin (- 1) then Fin 1
         else if abs_lt_1 x = (y = Infty False) then Zero False
         else Infty False)
      else if isInf x then
        (if x = Infty True then powZero (Zero True) (fneg y)
         else if lt_0 y then Zero False
         else Infty False)
      else if lt_0 x \<and> of_int \<lfloor>val y\<rfloor> \<noteq> val y then NaN
      else pw (val x) (val y))"

subsection \<open>Decimal text\<close>

definition isDigit :: "char \<Rightarrow> bool" where
  "isDigit c = (c \<in> set ''0123456789'')"

definition digit :: "nat \<Rightarrow> char" where
  "digit n = ''0123456789'' ! (n mod 10)"

fun dec :: "nat \<Rightarrow> string" where
  "dec n = (if n < 10 then [digit n] else dec (n div 10) @ [digit n])"

declare dec.simps [simp del]

text \<open>\<^verbatim>\<open>appendInt(b, n, 2)\<close>: at least two digits, padded with a zero.\<close>

definition dec2 :: "nat \<Rightarrow> string" where
  "dec2 n = (if n < 10 then CHR ''0'' # dec n else dec n)"

text \<open>
  The verb \<^verbatim>\<open>%.2f\<close> of package \<^verbatim>\<open>fmt\<close>: the exact value rounded to two decimals (a
  tie to the even digit), the sign taken from the sign bit; \<^verbatim>\<open>NaN\<close>, \<^verbatim>\<open>+Inf\<close> and
  \<^verbatim>\<open>-Inf\<close> for the values that are no numbers.
\<close>

fun fmt_2f :: "float64 \<Rightarrow> string" where
  "fmt_2f NaN = ''NaN''"
| "fmt_2f (Infty s) = (if s then ''-Inf'' else ''+Inf'')"
| "fmt_2f (Zero s) = (if s then ''-0.00'' else ''0.00'')"
| "fmt_2f (Fin q) =
     (let n = nat (round_half_even (\<bar>q\<bar> * 100))
      in (if q < 0 then ''-'' else []) @ dec (n div 100) @ ''.'' @ dec2 (n mod 100))"

subsection \<open>time.Time\<close>

datatype Month = January | February | March | April | May | June | July | August
  | September | October | November | December

text \<open>
  A \<^verbatim>\<open>time.Time\<close> is kept as the calendar fields it shows in its own location, with
  the location's offset east of UTC in seconds.
\<close>

record time =
  year :: int
  month :: Month
  day :: nat
  hour :: nat
  minute :: nat
  second :: nat
  nsec :: nat
  zoneOffset :: int

fun monthNumber :: "Month \<Rightarrow> int" where
  "monthNumber January = 1" | "monthNumber February = 2" | "monthNumber March = 3"
| "monthNumber April = 4" | "monthNumber May = 5" | "monthNumber June = 6"
| "monthNumber July = 7" | "monthNumber August = 8" | "monthNumber September = 9"
| "monthNumber October = 10" | "monthNumber November = 11" | "monthNumber December = 12"

text \<open>The first three letters of \<^verbatim>\<open>Month.String()\<close>, the layout element \<^verbatim>\<open>Jan\<close>.\<close>

fun monthAbbrev :: "Month \<Rightarrow> string" where
  "monthAbbrev January = ''Jan''" | "monthAbbrev February = ''Feb''"
| "monthAbbrev March = ''Mar''" | "monthAbbrev April = ''Apr''"
| "monthAbbrev May = ''May''" | "monthAbbrev June = ''Jun''"
| "monthAbbrev July = ''Jul''" | "monthAbbrev August = ''Aug''"
| "monthAbbrev September = ''Sep''" | "monthAbbrev October = ''Oct''"
| "monthAbbrev November = ''Nov''" | "monthAbbrev December = ''Dec''"

text \<open>
  \<^verbatim>\<open>const humanDate = "02-Jan-06"\<close> and \<^verbatim>\<open>t.Format(humanDate)\<close>: the day in two
  digits, the month's abbreviation, the last two digits of the year (of its absolute
  value).
\<close>

definition Format_humanDate :: "time \<Rightarrow> string" where
  "Format_humanDate t =
     dec2 (day t) @ ''-'' @ monthAbbrev (month t) @ ''-'' @ dec2 (nat (\<bar>year t\<bar> mod 100))"

text \<open>Days from 1 January 1970 to a date of the proleptic Gregorian calendar.\<close>

definition daysFromCivil :: "int \<Rightarrow> int \<Rightarrow> int \<Rightarrow> int" where
  "daysFromCivil y m d =
     (let y' = (if m \<le> 2 then y - 1 else y);
          era = y' div 400;
          yoe = y' - era * 400;
          doy = (153 * (if 2 < m then m - 3 else m + 9) + 2) div 5 + d - 1;
          doe = yoe * 365 + yoe div 4 - yoe div 100 + doy
      in era * 146097 + doe - 719468)"

text \<open>The instant of a time, in nanoseconds since 1 January 1970 UTC.\<close>

definition unixNano :: "time \<Rightarrow> int" where
  "unixNano t =
     ((daysFromCivil (year t) (monthNumber (month t)) (int (day t)) * 86400
       + int (hour t) * 3600 + int (minute t) * 60 + int (second t) - zoneOffset t)
      * 1000000000) + int (nsec t)"

text \<open>
  \<^verbatim>\<open>t.Sub(u)\<close>: a \<^verbatim>\<open>Duration\<close>, an \<^verbatim>\<open>int64\<close> of nanoseconds; a difference out of
  its range is the largest or smallest duration.
\<close>

definition Sub :: "time \<Rightarrow> time \<Rightarrow> int" where
  "Sub t u =
     (let d = unixNano t - unixNano u
      in if d < - (2 ^ 63) then - (2 ^ 63)
         else if 2 ^ 63 - 1 < d then 2 ^ 63 - 1
         else d)"

text \<open>Go's integer division truncates towards zero; \<^verbatim>\<open>%\<close> takes the dividend's sign.\<close>

definition quo :: "int \<Rightarrow> int \<Rightarrow> int" where
  "quo a b = sgn a * sgn b * (\<bar>a\<bar> div \<bar>b\<bar>)"

definition rem :: "int \<Rightarrow> int \<Rightarrow> int" where
  "rem a b = a - b * quo a b"

text \<open>
  \<^verbatim>\<open>d.Seconds()\<close>: \<^verbatim>\<open>sec := d / Second; nsec := d % Second;
  return float64(sec) + float64(nsec)/1e9\<close>, with \<^verbatim>\<open>Second\<close> the duration of
  1000000000 nanoseconds.
\<close>

definition Seconds :: "int \<Rightarrow> float64" where
  "Seconds d =
     fadd (float64_of_int (quo d 1000000000))
          (fdiv (float64_of_int (rem d 1000000000)) (Fin 1000000000))"

text \<open>The zero \<^verbatim>\<open>time.Time\<close>: 1 January of year 1, 00:00:00 UTC.\<close>

definition zeroTime :: time where
  "zeroTime = \<lparr>year = 1, month = January, day = 1, hour = 0, minute = 0, second = 0,
     nsec = 0, zoneOffset = 0\<rparr>"

subsection \<open>Strings in encoding/json\<close>

text \<open>
  \<^verbatim>\<open>utf8.DecodeRuneInString(s)\<close> on a string that is not empty: \<open>Some n\<close> when \<open>s\<close>
  starts with a valid encoding of \<open>n\<close> bytes, \<open>None\<close> when it returns
  \<^verbatim>\<open>RuneError\<close> with the size 1. The second byte of an encoding has a narrower range
  after the first bytes \<^verbatim>\<open>E0\<close>, \<^verbatim>\<open>ED\<close>, \<^verbatim>\<open>F0\<close> and \<^verbatim>\<open>F4\<close>.
\<close>

definition byteIn :: "nat \<Rightarrow> nat \<Rightarrow> char \<Rightarrow> bool" where
  "byteIn lo hi c = (lo \<le> of_char c \<and> (of_char c :: nat) \<le> hi)"

fun runeSize :: "string \<Rightarrow> nat option" where
  "runeSize [] = None"
| "runeSize (s0 # rest) =
     (if byteIn 0x00 0x7F s0 then Some 1
      else if byteIn 0xC2 0xDF s0 then
        (case rest of
           s1 # _ \<Rightarrow> if byteIn 0x80 0xBF s1 then Some 2 else None
         | _ \<Rightarrow> None)
      else if byteIn 0xE0 0xEF s0 then
        (case rest of
           s1 # s2 # _ \<Rightarrow>
             if byteIn (if s0 = CHR 0xE0 then 0xA0 else 0x80)
                       (if s0 = CHR 0xED then 0x9F else 0xBF) s1
                \<and> byteIn 0x80 0xBF s2
             then Some 3 else None
         | _ \<Rightarrow> None)
      else if byteIn 0xF0 0xF4 s0 then
        (case rest of
           s1 # s2 # s3 # _ \<Rightarrow>
             if byteIn (if s0 = CHR 0xF0 then 0x90 else 0x80)
                       (if s0 = CHR 0xF4 then 0x8F else 0xBF) s1
                \<and> byteIn 0x80 0xBF s2 \<and> byteIn 0x80 0xBF s3
             then Some 4 else None
         | _ \<Rightarrow> None)
      else None)"

text \<open>
  A string as \<^verbatim>\<open>json\<close> gives it back after writing it: the encoder writes the
  escape of \<^verbatim>\<open>U+FFFD\<close> for each byte at which \<^verbatim>\<open>DecodeRuneInString\<close> finds no
  valid encoding, and the decoder reads that as the three bytes of \<^verbatim>\<open>U+FFFD\<close>. In
  \<open>coerceFrom k s\<close> the first \<open>k\<close> bytes of \<open>s\<close> are the rest of an encoding
  already found valid.
\<close>

fun coerceFrom :: "nat \<Rightarrow> string \<Rightarrow> string" where
  "coerceFrom k [] = []"
| "coerceFrom (Suc k) (b # bs) = b # coerceFrom k bs"
| "coerceFrom 0 (b # bs) =
     (case runeSize (b # bs) of
        None \<Rightarrow> [CHR 0xEF, CHR 0xBF, CHR 0xBD] @ coerceFrom 0 bs
      | Some n \<Rightarrow> b # coerceFrom (n - 1) bs)"

definition toValidUTF8 :: "string \<Rightarrow> string" where
  "toValidUTF8 s = coerceFrom 0 s"

section \<open>The data model\<close>

text \<open>
  \<^verbatim>\<open>type investment struct\<close>, \<^verbatim>\<open>type performance struct\<close> and \<^verbatim>\<open>type config struct\<close>.
  The fields \<^verbatim>\<open>Symbol\<close> and \<^verbatim>\<open>Date\<close> of a performance are \<open>perfSymbol\<close> and
  \<open>perfDate\<close> here, since a field name belongs to one record.
\<close>

record investment =
  Symbol :: string
  Date :: time
  Total :: float64
  Units :: float64

record performance =
  perfSymbol :: string
  Price :: float64
  CompoundInterest :: float64
  perfDate :: time

text \<open>
  \<^verbatim>\<open>History map[string][]performance\<close>: \<open>History c s = None\<close> when the index expression
  \<^verbatim>\<open>conf.History[s]\<close> is a nil slice (the key is absent, its value is \<^verbatim>\<open>null\<close> in the
  file, or the map itself is nil), \<open>Some ps\<close> when it is a slice that is not nil. The
  program never tells a nil map from an empty one but to make one before it stores in
  it (\<^verbatim>\<open>if conf.History == nil\<close>), and never tells a nil \<^verbatim>\<open>Investments\<close> from an empty
  one: both are \<open>[]\<close>.
\<close>

record config =
  Investments :: "investment list"
  History :: "string \<rightharpoonup> performance list"

text \<open>The zero values \<^verbatim>\<open>investment{}\<close> and \<^verbatim>\<open>config{}\<close>.\<close>

definition investment_zero :: investment where
  "investment_zero = \<lparr>Symbol = [], Date = zeroTime, Total = Zero False, Units = Zero False\<rparr>"

definition config_zero :: config where
  "config_zero = \<lparr>Investments = [], History = Map.empty\<rparr>"

text \<open>
  The \<^verbatim>\<open>error\<close> values: \<open>ErrorString s\<close> is \<^verbatim>\<open>errors.New(s)\<close>; the others are what
  a library returned, with its text.
\<close>

datatype error =
    ErrorString string
  | ParseError string
  | NumError string
  | PathError string
  | OtherError string

section \<open>What the program is run in\<close>

text \<open>
  A file, as \<^verbatim>\<open>parseConfig\<close> finds it: missing (\<^verbatim>\<open>os.IsNotExist\<close>), not to be opened,
  opened but not decoded (\<^verbatim>\<open>Decode\<close> returns the error), or holding the text of a
  config: \<open>Holds c\<close> is a file from which \<^verbatim>\<open>Decode\<close> reads \<open>c\<close>.
\<close>

datatype fileContent = NotExist | OpenFails error | DecodeFails error | Holds config

text \<open>A file of no bytes: \<^verbatim>\<open>Decode\<close> returns \<^verbatim>\<open>io.EOF\<close>.\<close>

definition emptyFile :: fileContent where
  "emptyFile = DecodeFails (ErrorString ''EOF'')"

text \<open>
  The functions of other packages whose results the program only passes on, and the
  answers of what it talks to:
  \<^item> \<open>time_Parse s\<close> is \<^verbatim>\<open>time.Parse(mmddyy, s)\<close> with \<^verbatim>\<open>const mmddyy = "1/2/2006"\<close>;
  \<^item> \<open>ParseFloat s\<close> is \<^verbatim>\<open>strconv.ParseFloat(s, 64)\<close>;
  \<^item> \<open>powFinite\<close> is \<^verbatim>\<open>math.Pow\<close> outside its special cases;
  \<^item> \<open>Now k\<close> is what the \<open>k\<close>-th call of \<^verbatim>\<open>time.Now()\<close> returns;
  \<^item> \<open>GetPrice k s\<close> is what the \<open>k\<close>-th call of \<^verbatim>\<open>yquotes.GetPrice\<close> returns for the
    symbol \<open>s\<close>: the field \<^verbatim>\<open>Last\<close> of the price, and the error;
  \<^item> \<open>OpenFile p\<close> is the error of \<^verbatim>\<open>os.OpenFile(p, O_WRONLY|O_CREATE|O_TRUNC, 0777)\<close>;
  \<^item> \<open>Encode c\<close> is what \<^verbatim>\<open>json.NewEncoder(f).Encode(c)\<close> does on the emptied file
    \<^verbatim>\<open>f\<close>: \<open>Inl\<close> the error it returns, with the file as it leaves it, or
    \<open>Inr\<close> the config that \<^verbatim>\<open>Decode\<close> reads from what it wrote. This need not be
    \<open>c\<close>: the encoder writes a string that is not valid UTF-8 with \<^verbatim>\<open>U+FFFD\<close> in
    it. An \<^verbatim>\<open>Encode\<close> that refuses a value of \<open>c\<close> returns before it writes and
    leaves the file empty;
  \<^item> \<open>Send subject body\<close> is the response and the error of mailgun's \<^verbatim>\<open>Send\<close>.
\<close>

record env =
  time_Parse :: "string \<Rightarrow> time \<times> error option"
  ParseFloat :: "string \<Rightarrow> float64 \<times> error option"
  powFinite :: "rat \<Rightarrow> rat \<Rightarrow> float64"
  Now :: "nat \<Rightarrow> time"
  GetPrice :: "nat \<Rightarrow> string \<Rightarrow> float64 \<times> error option"
  OpenFile :: "string \<Rightarrow> error option"
  Encode :: "config \<Rightarrow> (error \<times> fileContent) + config"
  Send :: "string \<Rightarrow> string \<Rightarrow> string \<times> error option"

text \<open>
  The state a run changes: the files by path, the text written to standard output, the
  messages handed to mailgun (subject and body), and how often the clock and the quote
  service have been asked.
\<close>

record world =
  files :: "string \<Rightarrow> fileContent"
  stdout :: string
  sent :: "(string \<times> string) list"
  nowCalls :: nat
  priceCalls :: nat

section \<open>The program\<close>

subsection \<open>currentRate\<close>

text \<open>\<^verbatim>\<open>const secondsPerYear = 365.25 * 24 * 60 * 60\<close>, an exact constant: 31557600.\<close>

definition secondsPerYear :: float64 where
  "secondsPerYear = Fin 31557600"

text \<open>
  \<^verbatim>\<open>func currentRate(i investment, price float64) float64\<close>. Its reading of the clock,
  \<^verbatim>\<open>time.Now()\<close>, is the argument \<open>now\<close>.
\<close>

definition currentRate :: "env \<Rightarrow> time \<Rightarrow> investment \<Rightarrow> float64 \<Rightarrow> float64" where
  "currentRate E now i price =
     (let principal = fdiv (Total i) (Units i);
          d = fdiv (Seconds (Sub now (Date i))) secondsPerYear;
          r = fmul (Fin 100)
                (fsub (Pow (powFinite E) (fdiv price principal) (fdiv (Fin 1) d)) (Fin 1))
      in r)"

subsection \<open>parseConfig and writeConfig\<close>

text \<open>
  \<^verbatim>\<open>func parseConfig(file string) (config, error)\<close>. A missing file is an empty config
  and no error. When \<^verbatim>\<open>Decode\<close> fails the config returned with the error is dropped
  by both callers; it is \<open>config_zero\<close> here.
\<close>

definition parseConfig :: "world \<Rightarrow> string \<Rightarrow> config \<times> error option" where
  "parseConfig w path =
     (case files w path of
        NotExist \<Rightarrow> (config_zero, None)
      | OpenFails err \<Rightarrow> (config_zero, Some err)
      | DecodeFails err \<Rightarrow> (config_zero, Some err)
      | Holds c \<Rightarrow> (c, None))"

text \<open>
  \<^verbatim>\<open>func writeConfig(file string, conf config) error\<close>. Opening with \<^verbatim>\<open>O_TRUNC\<close> empties
  the file before anything is encoded; the file is then what \<^verbatim>\<open>Encode\<close> leaves.
\<close>

definition writeConfig :: "env \<Rightarrow> string \<Rightarrow> config \<Rightarrow> world \<Rightarrow> error option \<times> world" where
  "writeConfig E path conf w =
     (case OpenFile E path of
        Some err \<Rightarrow> (Some err, w)
      | None \<Rightarrow>
          (case Encode E conf of
             Inl (err, left) \<Rightarrow> (Some err, w\<lparr>files := (files w)(path := left)\<rparr>)
           | Inr stored \<Rightarrow> (None, w\<lparr>files := (files w)(path := Holds stored)\<rparr>)))"

subsection \<open>parseInvestmentLine and addInvestment\<close>

text \<open>
  \<^verbatim>\<open>strings.Split(s, ",")\<close>: the pieces of \<open>s\<close> between its commas, one more than it
  has commas.
\<close>

fun Split_comma :: "string \<Rightarrow> string list" where
  "Split_comma [] = [[]]"
| "Split_comma (c # cs) =
     (if c = CHR '','' then [] # Split_comma cs
      else (case Split_comma cs of
              [] \<Rightarrow> [[c]]
            | f # fs \<Rightarrow> (c # f) # fs))"

text \<open>
  \<^verbatim>\<open>func parseInvestmentLine(iStr string) (investment, error)\<close>. The last return hands
  back the investment together with whatever error parsing the units gave.
\<close>

definition parseInvestmentLine :: "env \<Rightarrow> string \<Rightarrow> investment \<times> error option" where
  "parseInvestmentLine E iStr =
     (let arr = Split_comma iStr
      in if length arr \<noteq> 4
         then (investment_zero, Some (ErrorString ''investment line format incorrect''))
         else
           (case time_Parse E (arr ! 1) of
              (t, Some err) \<Rightarrow> (investment_zero, Some err)
            | (t, None) \<Rightarrow>
                (case ParseFloat E (arr ! 2) of
                   (total', Some err) \<Rightarrow> (investment_zero, Some err)
                 | (total', None) \<Rightarrow>
                     (case ParseFloat E (arr ! 3) of
                        (units, err) \<Rightarrow>
                          (\<lparr>Symbol = arr ! 0, Date = t, Total = total', Units = units\<rparr>,
                           err)))))"


subsection \<open>printAnalysis\<close>

definition newline :: char where
  "newline = CHR 0x0A"

text \<open>\<^verbatim>\<open>fmt.Fprintf(writer, "===%s %.2f %s ===\n", v.Symbol, v.Total, v.Date.Format(humanDate))\<close>\<close>

definition headerLine :: "investment \<Rightarrow> string" where
  "headerLine v =
     ''==='' @ Symbol v @ '' '' @ fmt_2f (Total v) @ '' '' @ Format_humanDate (Date v)
       @ '' ==='' @ [newline]"

text \<open>\<^verbatim>\<open>fmt.Fprintf(writer, "%s %.2f %%\n", dateStr, h.CompoundInterest)\<close>\<close>

definition historyLine :: "performance \<Rightarrow> string" where
  "historyLine h =
     Format_humanDate (perfDate h) @ '' '' @ fmt_2f (CompoundInterest h) @ '' %'' @ [newline]"

text \<open>
  The loop \<^verbatim>\<open>for i := len(history) - 1; i >= 0; i--\<close> with its set \<^verbatim>\<open>seen\<close>:
  \<open>historyWalk history n seen\<close> is the loop from \<open>i = n - 1\<close> down, and returns the
  records it prints, in the order it prints them.
\<close>

fun historyWalk :: "performance list \<Rightarrow> nat \<Rightarrow> string set \<Rightarrow> performance list" where
  "historyWalk history 0 seen = []"
| "historyWalk history (Suc i) seen =
     (let h = history ! i;
          dateStr = Format_humanDate (perfDate h)
      in if dateStr \<in> seen then historyWalk history i seen
         else h # historyWalk history i (insert dateStr seen))"

text \<open>One turn of the loop over \<^verbatim>\<open>conf.Investments\<close>: what it writes for \<open>v\<close>.\<close>

definition printBlock :: "(string \<rightharpoonup> performance list) \<Rightarrow> investment \<Rightarrow> string" where
  "printBlock H v =
     headerLine v @
     (case H (Symbol v) of
        None \<Rightarrow> []
      | Some history \<Rightarrow>
          concat (map historyLine (historyWalk history (length history) {})) @ [newline])"

fun printLoop :: "(string \<rightharpoonup> performance list) \<Rightarrow> investment list \<Rightarrow> string" where
  "printLoop H [] = []"
| "printLoop H (v # vs) = printBlock H v @ printLoop H vs"

text \<open>
  \<^verbatim>\<open>func printAnalysis(writer io.Writer, conf config)\<close>: the text it writes to the
  writer.
\<close>

definition printAnalysis :: "config \<Rightarrow> string" where
  "printAnalysis conf = printLoop (History conf) (Investments conf)"

subsection \<open>analysis\<close>

text \<open>
  The three lines \<^verbatim>\<open>hPerf := conf.History[i.Symbol]; hPerf = append(hPerf, perf);
  conf.History[i.Symbol] = hPerf\<close>. \<open>historyFor H s\<close> is the records of the slice
  \<^verbatim>\<open>conf.History[s]\<close>, none when it is nil; appending to a nil slice makes a slice that
  is not nil.
\<close>

definition historyFor :: "(string \<rightharpoonup> performance list) \<Rightarrow> string \<Rightarrow> performance list" where
  "historyFor H s = (case H s of None \<Rightarrow> [] | Some hPerf \<Rightarrow> hPerf)"

definition appendHistory ::
  "(string \<rightharpoonup> performance list) \<Rightarrow> string \<Rightarrow> performance \<Rightarrow> (string \<rightharpoonup> performance list)" where
  "appendHistory H s perf = H(s \<mapsto> historyFor H s @ [perf])"

text \<open>
  The loop \<^verbatim>\<open>for _, i := range conf.Investments\<close> of \<^verbatim>\<open>analysis\<close>, on the history map
  and the world. A failing \<^verbatim>\<open>yquotes.GetPrice\<close> returns from \<^verbatim>\<open>analysis\<close> at once.
  \<^verbatim>\<open>currentRate\<close> reads the clock once, and the \<^verbatim>\<open>performance\<close> literal once more.
\<close>

fun analysisLoop ::
  "env \<Rightarrow> investment list \<Rightarrow> (string \<rightharpoonup> performance list) \<Rightarrow> world
     \<Rightarrow> (error + (string \<rightharpoonup> performance list)) \<times> world" where
  "analysisLoop E [] H w = (Inr H, w)"
| "analysisLoop E (i # rest) H w =
     (case GetPrice E (priceCalls w) (Symbol i) of
        (price, Some err) \<Rightarrow> (Inl err, w\<lparr>priceCalls := Suc (priceCalls w)\<rparr>)
      | (price, None) \<Rightarrow>
          (let r = currentRate E (Now E (nowCalls w)) i price;
               perf = \<lparr>perfSymbol = Symbol i, Price = price, CompoundInterest = r,
                        perfDate = Now E (Suc (nowCalls w))\<rparr>
           in analysisLoop E rest (appendHistory H (Symbol i) perf)
                (w\<lparr>priceCalls := Suc (priceCalls w), nowCalls := Suc (Suc (nowCalls w))\<rparr>)))"

text \<open>
  \<^verbatim>\<open>func sendEmail(body string) error\<close>: the subject reads the clock; the response is
  printed with \<^verbatim>\<open>fmt.Println\<close>.
\<close>

definition sendEmail :: "env \<Rightarrow> string \<Rightarrow> world \<Rightarrow> error option \<times> world" where
  "sendEmail E body w =
     (let subject = ''Investment Report - '' @ Format_humanDate (Now E (nowCalls w))
      in case Send E subject body of
           (resp, err) \<Rightarrow>
             (err, w\<lparr>nowCalls := Suc (nowCalls w),
                     stdout := stdout w @ resp @ [newline],
                     sent := sent w @ [(subject, body)]\<rparr>))"

text \<open>
  \<^verbatim>\<open>func analysis(confFile string) error\<close>. \<^verbatim>\<open>ioutil.ReadAll\<close> of the buffer gives back
  what \<^verbatim>\<open>printAnalysis\<close> wrote into it and no error.
\<close>

definition analysis :: "env \<Rightarrow> string \<Rightarrow> world \<Rightarrow> error option \<times> world" where
  "analysis E confFile w =
     (case parseConfig w confFile of
        (conf, Some err) \<Rightarrow> (Some err, w)
      | (conf, None) \<Rightarrow>
          (case analysisLoop E (Investments conf) (History conf) w of
             (Inl err, w1) \<Rightarrow> (Some err, w1)
           | (Inr H, w1) \<Rightarrow>
               (let conf1 = conf\<lparr>History := H\<rparr>
                in case writeConfig E confFile conf1 w1 of
                     (Some err, w2) \<Rightarrow> (Some err, w2)
                   | (None, w2) \<Rightarrow>
                       sendEmail E (printAnalysis conf1)
                         (w2\<lparr>stdout := stdout w2 @ printAnalysis conf1\<rparr>))))"

section \<open>The view of a history that is printed\<close>

text \<open>
  The text a record's date is printed as, \<^verbatim>\<open>h.Date.Format(humanDate)\<close>: the key of
  the set \<^verbatim>\<open>seen\<close>, by which \<^verbatim>\<open>printAnalysis\<close> tells days apart.
\<close>

definition dayOf :: "performance \<Rightarrow> string" where
  "dayOf h = Format_humanDate (perfDate h)"

text \<open>
  The view by that key: of the records of a history, those that are the last appended
  with the text of their day. \<open>lastOfDay history i\<close> says that no record after index
  \<open>i\<close> is printed with the day text of the record at \<open>i\<close>; \<open>dedupView\<close> lists
  the records for which this holds, newest first.
\<close>

definition lastOfDay :: "performance list \<Rightarrow> nat \<Rightarrow> bool" where
  "lastOfDay history i =
     list_all (\<lambda>h. dayOf h \<noteq> dayOf (history ! i)) (drop (Suc i) history)"

definition dedupView :: "performance list \<Rightarrow> performance list" where
  "dedupView history =
     rev (map (\<lambda>i. history ! i) (filter (lastOfDay history) [0..<length history]))"

text \<open>Two times on the same calendar day, each in its own location.\<close>

definition sameCalendarDay :: "time \<Rightarrow> time \<Rightarrow> bool" where
  "sameCalendarDay t u = (year t = year u \<and> month t = month u \<and> day t = day u)"

text \<open>
  The view in the words of the specification: of the records of a history, those that
  are the last appended of their calendar day, newest first.
\<close>

definition lastOfCalendarDay :: "performance list \<Rightarrow> nat \<Rightarrow> bool" where
  "lastOfCalendarDay history i =
     list_all (\<lambda>h. \<not> sameCalendarDay (perfDate h) (perfDate (history ! i)))
       (drop (Suc i) history)"

definition calendarDayView :: "performance list \<Rightarrow> performance list" where
  "calendarDayView history =
     rev (map (\<lambda>i. history ! i) (filter (lastOfCalendarDay history) [0..<length history]))"

text \<open>
  Two times that agree in what the layout \<^verbatim>\<open>02-Jan-06\<close> shows of them: the day of the
  month, the month, and the last two digits of the year.
\<close>

definition sameDayText :: "time \<Rightarrow> time \<Rightarrow> bool" where
  "sameDayText t u =
     (day t = day u \<and> month t = month u \<and> \<bar>year t\<bar> mod 100 = \<bar>year u\<bar> mod 100)"

text \<open>
  A history in which the layout tells the calendar days apart: records that agree in
  what it shows are of the same calendar day.
\<close>

definition daysToldApart :: "performance list \<Rightarrow> bool" where
  "daysToldApart history =
     list_all (\<lambda>p. list_all (\<lambda>q. sameDayText (perfDate p) (perfDate q)
                                   = sameCalendarDay (perfDate p) (perfDate q)) history)
       history"

section \<open>Sample values\<close>

text \<open>
  Concrete inputs for the examples below. \<open>sampleEnv\<close> lists what the libraries
  return on the few strings the examples use: \<^verbatim>\<open>time.Parse("1/2/2006", "1/2/2006")\<close> is
  2 January 2006 UTC; \<^verbatim>\<open>strconv.ParseFloat\<close> reads \<^verbatim>\<open>"100"\<close>, \<^verbatim>\<open>"10"\<close>, \<^verbatim>\<open>"-5"\<close>,
  \<^verbatim>\<open>"0"\<close> and \<^verbatim>\<open>"NaN"\<close> as these values and returns no error, and refuses
  \<^verbatim>\<open>"abc"\<close>; \<^verbatim>\<open>Encode\<close> refuses a config with an investment whose total or units is
  NaN or infinite, as \<^verbatim>\<open>json\<close> does with its \<^verbatim>\<open>UnsupportedValueError\<close> before it
  writes, and of any other config gives back the investments with their symbols as
  \<open>toValidUTF8\<close> makes them, and the history as it is: so \<^verbatim>\<open>json\<close> does for dates
  in the years 0 to 9999 at an offset of whole minutes and a history of finite numbers
  and of symbols that are valid UTF-8, as those of the examples are. The quote service
  of \<open>sampleEnv\<close> knows the symbols \<^verbatim>\<open>AAPL\<close> and \<^verbatim>\<open>GOOG\<close>; every file can be
  opened for writing and every message is sent.
\<close>

definition jan2_2006 :: time where
  "jan2_2006 = \<lparr>year = 2006, month = January, day = 2, hour = 0, minute = 0, second = 0,
     nsec = 0, zoneOffset = 0\<rparr>"

definition jan2_1700 :: time where
  "jan2_1700 = \<lparr>year = 1700, month = January, day = 2, hour = 0, minute = 0, second = 0,
     nsec = 0, zoneOffset = 0\<rparr>"

definition mar12_2024 :: time where
  "mar12_2024 = \<lparr>year = 2024, month = March, day = 12, hour = 9, minute = 30, second = 0,
     nsec = 0, zoneOffset = 0\<rparr>"

definition mar12_1924 :: time where
  "mar12_1924 = \<lparr>year = 1924, month = March, day = 12, hour = 9, minute = 30, second = 0,
     nsec = 0, zoneOffset = 0\<rparr>"

definition mar11_2024_am :: time where
  "mar11_2024_am = \<lparr>year = 2024, month = March, day = 11, hour = 9, minute = 30, second = 0,
     nsec = 0, zoneOffset = 0\<rparr>"

definition mar11_2024_pm :: time where
  "mar11_2024_pm = \<lparr>year = 2024, month = March, day = 11, hour = 17, minute = 0, second = 0,
     nsec = 0, zoneOffset = 0\<rparr>"

text \<open>
  A history of three records appended on the days 11 March, 11 March and 12 March, and a
  config of two investments of which only the second has a history.
\<close>

definition sampleP1 :: performance where
  "sampleP1 = \<lparr>perfSymbol = ''AAPL'', Price = Fin 12, CompoundInterest = Fin 3,
     perfDate = mar11_2024_am\<rparr>"

definition sampleP2 :: performance where
  "sampleP2 = \<lparr>perfSymbol = ''AAPL'', Price = Fin 13, CompoundInterest = Fin 4,
     perfDate = mar11_2024_pm\<rparr>"

definition sampleP3 :: performance where
  "sampleP3 = \<lparr>perfSymbol = ''AAPL'', Price = Fin 14, CompoundInterest = Fin (11 / 2),
     perfDate = mar12_2024\<rparr>"

definition sampleHistory :: "performance list" where
  "sampleHistory = [sampleP1, sampleP2, sampleP3]"

text \<open>A history of two records appended on 12 March 1924 and on 12 March 2024.\<close>

definition sampleP1924 :: performance where
  "sampleP1924 = \<lparr>perfSymbol = ''AAPL'', Price = Fin 2, CompoundInterest = Fin 1,
     perfDate = mar12_1924\<rparr>"

definition sampleCentury :: "performance list" where
  "sampleCentury = [sampleP1924, sampleP3]"

definition sampleGOOG :: investment where
  "sampleGOOG = \<lparr>Symbol = ''GOOG'', Date = jan2_2006, Total = Fin 100, Units = Fin 10\<rparr>"

definition sampleAAPL :: investment where
  "sampleAAPL = \<lparr>Symbol = ''AAPL'', Date = jan2_2006, Total = Fin 100, Units = Fin 10\<rparr>"

definition sampleConfig :: config where
  "sampleConfig = \<lparr>Investments = [sampleGOOG, sampleAAPL],
     History = [''AAPL'' \<mapsto> sampleHistory]\<rparr>"

text \<open>An investment bought at the time \<open>mar12_2024\<close>, 10 units for 100.\<close>

definition sampleBoughtNow :: investment where
  "sampleBoughtNow = \<lparr>Symbol = ''AAPL'', Date = mar12_2024, Total = Fin 100, Units = Fin 10\<rparr>"

text \<open>An investment dated 2 January 1700.\<close>

definition sampleOld :: investment where
  "sampleOld = \<lparr>Symbol = ''AAPL'', Date = jan2_1700, Total = Fin 100, Units = Fin 10\<rparr>"

definition sampleMSFT :: investment where
  "sampleMSFT = \<lparr>Symbol = ''MSFT'', Date = jan2_2006, Total = Fin 100, Units = Fin 10\<rparr>"

text \<open>
  A config of three investments, of which the quote service of \<open>sampleEnv\<close> below
  does not know the second.
\<close>

definition sampleConfig3 :: config where
  "sampleConfig3 = \<lparr>Investments = [sampleAAPL, sampleMSFT, sampleGOOG],
     History = [''AAPL'' \<mapsto> sampleHistory]\<rparr>"


definition sampleWorld3 :: world where
  "sampleWorld3 =
     \<lparr>files = (\<lambda>p. if p = ''config.json'' then Holds sampleConfig3 else NotExist),
      stdout = [], sent = [], nowCalls = 0, priceCalls = 0\<rparr>"

text \<open>A text given by its lines: each is followed by a newline.\<close>

definition unlines :: "string list \<Rightarrow> string" where
  "unlines ls = concat (map (\<lambda>l. l @ [newline]) ls)"

definition sampleEnv :: env where
  "sampleEnv =
     \<lparr>time_Parse = (\<lambda>s. if s = ''1/2/2006'' then (jan2_2006, None)
                          else (zeroTime, Some (ParseError s))),
      ParseFloat = (\<lambda>s. if s = ''100'' then (Fin 100, None)
                          else if s = ''10'' then (Fin 10, None)
                          else if s = ''-5'' then (Fin (- 5), None)
                          else if s = ''0'' then (Zero False, None)
                          else if s = ''NaN'' then (NaN, None)
                          else (Zero False, Some (NumError s))),
      powFinite = (\<lambda>a b. NaN),
      Now = (\<lambda>k. mar12_2024),
      GetPrice = (\<lambda>k s. if s = ''AAPL'' then (Fin 5, None)
                          else if s = ''GOOG'' then (Fin 20, None)
                          else (Zero False, Some (OtherError s))),
      OpenFile = (\<lambda>p. None),
      Encode = (\<lambda>c. if list_all (\<lambda>i. isFinite (Total i) \<and> isFinite (Units i)) (Investments c)
                      then Inr (c\<lparr>Investments :=
                                   map (\<lambda>i. i\<lparr>Symbol := toValidUTF8 (Symbol i)\<rparr>) (Investments c)\<rparr>)
                      else Inl (OtherError ''json: unsupported value'', emptyFile)),
      Send = (\<lambda>subject body. (''Queued'', None))\<rparr>"



section \<open>parseInvestmentLine\<close>

lemma length_Split_comma: "length (Split_comma s) = Suc (count_list s (CHR '',''))"
  by (induction s) (auto split: list.splits)

lemma Split_comma_not_Nil: "Split_comma s \<noteq> []"
  by (induction s) (auto split: list.splits)

text \<open>
  C8. A line whose split on comma does not give four fields is refused with the error
  \<^verbatim>\<open>errors.New("investment line format incorrect")\<close> (the spec's MalformedInput), and
  what comes with the error is the zero investment, not one made from the line.
\<close>

theorem parseInvestmentLine_field_count:
  assumes "length (Split_comma iStr) \<noteq> 4"
  shows "parseInvestmentLine E iStr =
           (investment_zero, Some (ErrorString ''investment line format incorrect''))"
  using assms by (simp add: parseInvestmentLine_def)

theorem parseInvestmentLine_field_count_witness:
  "length (Split_comma ''AAPL,1/2/2006,100'') \<noteq> 4 \<and>
   parseInvestmentLine sampleEnv ''AAPL,1/2/2006,100'' =
     (investment_zero, Some (ErrorString ''investment line format incorrect''))"
proof -
  have h: "length (Split_comma ''AAPL,1/2/2006,100'') \<noteq> 4"
    by simp
  show ?thesis
    using h parseInvestmentLine_field_count [OF h, of sampleEnv] by simp
qed

text \<open>
  C9. A line of four fields whose second field \<^verbatim>\<open>time.Parse\<close> accepts and whose third
  and fourth fields \<^verbatim>\<open>strconv.ParseFloat\<close> accepts gives, with no error, the investment
  of the first field as it stands and of the three parsed values, whatever they are.
\<close>

theorem parseInvestmentLine_valid:
  assumes "Split_comma iStr = [f0, f1, f2, f3]"
      and "time_Parse E f1 = (t, None)"
      and "ParseFloat E f2 = (a, None)"
      and "ParseFloat E f3 = (b, None)"
  shows "parseInvestmentLine E iStr = (\<lparr>Symbol = f0, Date = t, Total = a, Units = b\<rparr>, None)"
  using assms by (simp add: parseInvestmentLine_def)

theorem parseInvestmentLine_valid_witness:
  "Split_comma ''aapl,1/2/2006,-5,0'' = [''aapl'', ''1/2/2006'', ''-5'', ''0''] \<and>
   time_Parse sampleEnv ''1/2/2006'' = (jan2_2006, None) \<and>
   ParseFloat sampleEnv ''-5'' = (Fin (- 5), None) \<and>
   ParseFloat sampleEnv ''0'' = (Zero False, None) \<and>
   parseInvestmentLine sampleEnv ''aapl,1/2/2006,-5,0'' =
     (\<lparr>Symbol = ''aapl'', Date = jan2_2006, Total = Fin (- 5), Units = Zero False\<rparr>, None)"
proof -
  have s: "Split_comma ''aapl,1/2/2006,-5,0'' = [''aapl'', ''1/2/2006'', ''-5'', ''0'']"
    by simp
  have t: "time_Parse sampleEnv ''1/2/2006'' = (jan2_2006, None)"
    by (simp add: sampleEnv_def)
  have a: "ParseFloat sampleEnv ''-5'' = (Fin (- 5), None)"
    by (simp add: sampleEnv_def)
  have b: "ParseFloat sampleEnv ''0'' = (Zero False, None)"
    by (simp add: sampleEnv_def)
  show ?thesis
    using s t a b parseInvestmentLine_valid [OF s t a b] by simp
qed

section \<open>Evaluating the text functions\<close>

lemma dec_small: "n < 10 \<Longrightarrow> dec n = [digit n]"
  using dec.simps [of n] by simp

lemma dec_large: "10 \<le> n \<Longrightarrow> dec n = dec (n div 10) @ [digit n]"
  using dec.simps [of n] by simp

lemma isDigit_digit: "isDigit (digit n)"
  unfolding isDigit_def digit_def by (rule nth_mem) simp

lemma dec_digits: "list_all isDigit (dec n) \<and> dec n \<noteq> []"
proof (induction n rule: dec.induct)
  case (1 n)
  show ?case
  proof (cases "n < 10")
    case True
    then show ?thesis by (simp add: dec_small isDigit_digit)
  next
    case False
    then have "dec n = dec (n div 10) @ [digit n]"
      by (simp add: dec_large)
    with False 1 show ?thesis by (simp add: isDigit_digit)
  qed
qed

lemmas text_eval = dec_small dec_large digit_def dec2_def round_half_even_def Let_def
  Format_humanDate_def

lemmas sample_defs = sampleConfig_def sampleConfig3_def sampleHistory_def sampleP1_def
  sampleP2_def sampleP3_def sampleGOOG_def sampleAAPL_def sampleMSFT_def jan2_2006_def
  mar12_2024_def mar11_2024_am_def mar11_2024_pm_def

section \<open>The history store\<close>

lemma historyFor_appendHistory:
  "historyFor (appendHistory H s p) s' =
     (if s' = s then historyFor H s @ [p] else historyFor H s')"
  by (simp add: historyFor_def appendHistory_def)

lemma appendHistory_other: "s' \<noteq> s \<Longrightarrow> appendHistory H s p s' = H s'"
  by (simp add: appendHistory_def)

lemma foldl_appendHistory:
  "historyFor (foldl (\<lambda>H p. appendHistory H s p) H ps) s' =
     (if s' = s then historyFor H s @ ps else historyFor H s')"
  by (induction ps arbitrary: H) (simp_all add: historyFor_appendHistory)

lemma foldl_appendHistory_other:
  "s' \<noteq> s \<Longrightarrow> foldl (\<lambda>H p. appendHistory H s p) H ps s' = H s'"
  by (induction ps arbitrary: H) (simp_all add: appendHistory_other)

text \<open>
  C7. Appending a record for a symbol stores, under that symbol, the records that were
  there (none when the symbol had no history) followed by the new one, and leaves every
  other symbol's entry as it was. Appending the records \<open>ps\<close> one after the other
  gives the old records followed by \<open>ps\<close>, in that order and whatever their dates: from
  no history, exactly \<open>length ps\<close> records.
\<close>

theorem appendHistory_appends:
  "appendHistory H s p s = Some (historyFor H s @ [p]) \<and>
   (\<forall>s'. s' \<noteq> s \<longrightarrow> appendHistory H s p s' = H s') \<and>
   historyFor (foldl (\<lambda>H p. appendHistory H s p) H ps) s = historyFor H s @ ps \<and>
   (\<forall>s'. s' \<noteq> s \<longrightarrow> foldl (\<lambda>H p. appendHistory H s p) H ps s' = H s') \<and>
   (H s = None \<longrightarrow> length (historyFor (foldl (\<lambda>H p. appendHistory H s p) H ps) s) = length ps)"
proof (intro conjI allI impI)
  show "appendHistory H s p s = Some (historyFor H s @ [p])"
    by (simp add: appendHistory_def)
  show "appendHistory H s p s' = H s'" if "s' \<noteq> s" for s'
    using that by (rule appendHistory_other)
  show "historyFor (foldl (\<lambda>H p. appendHistory H s p) H ps) s = historyFor H s @ ps"
    by (simp add: foldl_appendHistory)
  show "foldl (\<lambda>H p. appendHistory H s p) H ps s' = H s'" if "s' \<noteq> s" for s'
    using that by (rule foldl_appendHistory_other)
  show "length (historyFor (foldl (\<lambda>H p. appendHistory H s p) H ps) s) = length ps"
    if "H s = None"
    using that by (simp add: foldl_appendHistory) (simp add: historyFor_def)
qed

theorem appendHistory_appends_witness:
  "Map.empty ''AAPL'' = None \<and> ''GOOG'' \<noteq> ''AAPL'' \<and>
   historyFor (foldl (\<lambda>H p. appendHistory H ''AAPL'' p) Map.empty [sampleP1, sampleP2, sampleP3])
     ''AAPL'' = [sampleP1, sampleP2, sampleP3] \<and>
   length (historyFor
     (foldl (\<lambda>H p. appendHistory H ''AAPL'' p) Map.empty [sampleP1, sampleP2, sampleP3])
     ''AAPL'') = 3 \<and>
   foldl (\<lambda>H p. appendHistory H ''AAPL'' p) Map.empty [sampleP1, sampleP2, sampleP3] ''GOOG''
     = None"
proof -
  have h: "(Map.empty :: string \<rightharpoonup> performance list) ''AAPL'' = None"
    by simp
  have n: "''GOOG'' \<noteq> ''AAPL''"
    by simp
  show ?thesis
    using h n
      appendHistory_appends [of Map.empty "''AAPL''" sampleP1 "[sampleP1, sampleP2, sampleP3]"]
    by (simp add: historyFor_def)
qed

section \<open>The text of a day\<close>

text \<open>
  The layout \<^verbatim>\<open>02-Jan-06\<close> prints two times alike exactly when they agree in the day
  of the month, the month and the last two digits of the year: decimal numerals and
  the abbreviations of the months are read back in one way only.
\<close>

lemma digit_inj: "digit n = digit m \<Longrightarrow> n mod 10 = m mod 10"
proof -
  assume a: "digit n = digit m"
  have d: "distinct ''0123456789''" by simp
  have "n mod 10 < length ''0123456789''" "m mod 10 < length ''0123456789''" by simp_all
  with a d show ?thesis
    unfolding digit_def by (simp only: nth_eq_iff_index_eq)
qed

lemma dec_inj: "dec n = dec m \<Longrightarrow> n = m"
proof (induction n arbitrary: m rule: dec.induct)
  case (1 n)
  show ?case
  proof (cases "n < 10")
    case True
    show ?thesis
    proof (cases "m < 10")
      case m: True
      with True 1(2) have "digit n = digit m" by (simp add: dec_small)
      from digit_inj [OF this] True m show ?thesis by simp
    next
      case False
      with True 1(2) have "[digit n] = dec (m div 10) @ [digit m]"
        by (simp add: dec_small dec_large)
      then have "dec (m div 10) = []" by simp
      with dec_digits show ?thesis by blast
    qed
  next
    case False
    show ?thesis
    proof (cases "m < 10")
      case True
      with False 1(2) have "dec (n div 10) @ [digit n] = [digit m]"
        by (simp add: dec_small dec_large)
      then have "dec (n div 10) = []" by simp
      with dec_digits show ?thesis by blast
    next
      case m: False
      with False 1(2) have "dec (n div 10) @ [digit n] = dec (m div 10) @ [digit m]"
        by (simp add: dec_large)
      then have e: "dec (n div 10) = dec (m div 10)" "digit n = digit m" by simp_all
      from 1(1) [OF False e(1)] have "n div 10 = m div 10" .
      moreover from digit_inj [OF e(2)] have "n mod 10 = m mod 10" .
      ultimately show ?thesis by (metis div_mult_mod_eq)
    qed
  qed
qed

lemma hd_dec: "0 < n \<Longrightarrow> hd (dec n) \<noteq> CHR ''0''"
proof (induction n rule: dec.induct)
  case (1 n)
  show ?case
  proof (cases "n < 10")
    case True
    with 1(2) have "n \<in> {1,2,3,4,5,6,7,8,9}" by auto
    then show ?thesis by (auto simp: dec_small digit_def)
  next
    case False
    then have "0 < n div 10" by simp
    with 1(1) False have "hd (dec (n div 10)) \<noteq> CHR ''0''" by simp
    moreover have "dec (n div 10) \<noteq> []" using dec_digits by blast
    ultimately show ?thesis using False by (simp add: dec_large)
  qed
qed

lemma dec2_inj: "dec2 n = dec2 m \<Longrightarrow> n = m"
proof -
  assume a: "dec2 n = dec2 m"
  consider "n < 10" "m < 10" | "n < 10" "10 \<le> m" | "10 \<le> n" "m < 10" | "10 \<le> n" "10 \<le> m"
    by linarith
  then show ?thesis
  proof cases
    case 1
    with a show ?thesis by (auto simp: dec2_def dest: dec_inj)
  next
    case 2
    with a have "dec m = CHR ''0'' # dec n" by (simp add: dec2_def)
    then have "hd (dec m) = CHR ''0''" by simp
    with hd_dec [of m] 2 show ?thesis by simp
  next
    case 3
    with a have "dec n = CHR ''0'' # dec m" by (simp add: dec2_def)
    then have "hd (dec n) = CHR ''0''" by simp
    with hd_dec [of n] 3 show ?thesis by simp
  next
    case 4
    with a show ?thesis by (auto simp: dec2_def dest: dec_inj)
  qed
qed

lemma dec2_digits: "list_all isDigit (dec2 n)"
  using dec_digits [of n] by (simp add: dec2_def isDigit_def)

lemma digits_split:
  assumes "list_all isDigit xs" "list_all isDigit ys" "\<not> isDigit c"
      and "xs @ c # r = ys @ c # r'"
  shows "xs = ys \<and> r = r'"
  using assms
proof (induction xs arbitrary: ys)
  case Nil
  then show ?case by (cases ys) auto
next
  case (Cons x xs)
  then show ?case by (cases ys) auto
qed

lemma length_monthAbbrev: "length (monthAbbrev m) = 3"
  by (cases m) simp_all

lemma monthAbbrev_inj: "monthAbbrev m = monthAbbrev m' \<Longrightarrow> m = m'"
  by (cases m; cases m') simp_all

lemma Format_humanDate_eq_iff:
  "Format_humanDate t = Format_humanDate u \<longleftrightarrow> sameDayText t u"
proof
  assume "sameDayText t u"
  then show "Format_humanDate t = Format_humanDate u"
    by (simp add: sameDayText_def Format_humanDate_def)
next
  assume a: "Format_humanDate t = Format_humanDate u"
  have nd: "\<not> isDigit (CHR ''-'')" by (simp add: isDigit_def)
  from a have "dec2 (day t) @ CHR ''-'' # (monthAbbrev (month t) @ ''-'' @ dec2 (nat (\<bar>year t\<bar> mod 100)))
      = dec2 (day u) @ CHR ''-'' # (monthAbbrev (month u) @ ''-'' @ dec2 (nat (\<bar>year u\<bar> mod 100)))"
    by (simp add: Format_humanDate_def)
  from digits_split [OF dec2_digits dec2_digits nd this]
  have d: "dec2 (day t) = dec2 (day u)"
    and r: "monthAbbrev (month t) @ ''-'' @ dec2 (nat (\<bar>year t\<bar> mod 100))
      = monthAbbrev (month u) @ ''-'' @ dec2 (nat (\<bar>year u\<bar> mod 100))"
    by simp_all
  from r have m: "monthAbbrev (month t) = monthAbbrev (month u)"
    and y: "dec2 (nat (\<bar>year t\<bar> mod 100)) = dec2 (nat (\<bar>year u\<bar> mod 100))"
    by (simp_all add: append_eq_append_conv length_monthAbbrev)
  from dec2_inj [OF y] have "\<bar>year t\<bar> mod 100 = \<bar>year u\<bar> mod 100"
    by (simp add: eq_nat_nat_iff)
  with dec2_inj [OF d] monthAbbrev_inj [OF m] show "sameDayText t u"
    by (simp add: sameDayText_def)
qed


section \<open>The walk over a history\<close>

lemma in_set_drop_nth:
  "x \<in> set (drop n xs) \<longleftrightarrow> (\<exists>j. n \<le> j \<and> j < length xs \<and> xs ! j = x)"
proof
  assume "x \<in> set (drop n xs)"
  then obtain k where k: "k < length (drop n xs)" "drop n xs ! k = x"
    by (auto simp: in_set_conv_nth)
  then have "n \<le> n + k \<and> n + k < length xs \<and> xs ! (n + k) = x"
    by auto
  then show "\<exists>j. n \<le> j \<and> j < length xs \<and> xs ! j = x"
    by blast
next
  assume "\<exists>j. n \<le> j \<and> j < length xs \<and> xs ! j = x"
  then obtain j where j: "n \<le> j" "j < length xs" "xs ! j = x"
    by blast
  then have "j - n < length (drop n xs)" "drop n xs ! (j - n) = x"
    by auto
  then show "x \<in> set (drop n xs)"
    by (auto simp: in_set_conv_nth)
qed

text \<open>\<open>lastOfDay\<close> by indices: no later record has the day of the record at \<open>i\<close>.\<close>

lemma lastOfDay_iff:
  "lastOfDay h i \<longleftrightarrow> (\<forall>j. i < j \<and> j < length h \<longrightarrow> dayOf (h ! j) \<noteq> dayOf (h ! i))"
proof -
  have "lastOfDay h i \<longleftrightarrow> (\<forall>x. x \<in> set (drop (Suc i) h) \<longrightarrow> dayOf x \<noteq> dayOf (h ! i))"
    by (auto simp: lastOfDay_def list_all_iff)
  also have "\<dots> \<longleftrightarrow>
      (\<forall>x. (\<exists>j. Suc i \<le> j \<and> j < length h \<and> h ! j = x) \<longrightarrow> dayOf x \<noteq> dayOf (h ! i))"
    by (simp only: in_set_drop_nth)
  also have "\<dots> \<longleftrightarrow> (\<forall>j. i < j \<and> j < length h \<longrightarrow> dayOf (h ! j) \<noteq> dayOf (h ! i))"
    by (auto simp: Suc_le_eq)
  finally show ?thesis .
qed

lemma historyWalk_Suc:
  "historyWalk h (Suc n) seen =
     (if dayOf (h ! n) \<in> seen then historyWalk h n seen
      else h ! n # historyWalk h n (insert (dayOf (h ! n)) seen))"
  by (simp add: dayOf_def Let_def)

text \<open>
  What the loop prints from index \<open>n - 1\<close> down, with the days \<open>seen\<close> so far: the
  records below \<open>n\<close> whose day is not in \<open>seen\<close> and is not the day of a later record
  below \<open>n\<close>, the newest first.
\<close>

lemma historyWalk_filter:
  "historyWalk h n seen =
     rev (map (\<lambda>i. h ! i)
       (filter (\<lambda>i. dayOf (h ! i) \<notin> seen \<and>
                     (\<forall>j. i < j \<and> j < n \<longrightarrow> dayOf (h ! j) \<noteq> dayOf (h ! i)))
          [0..<n]))"
proof (induction n arbitrary: seen)
  case 0
  then show ?case by simp
next
  case (Suc n)
  show ?case
  proof (cases "dayOf (h ! n) \<in> seen")
    case True
    have "filter (\<lambda>i. dayOf (h ! i) \<notin> seen \<and>
                     (\<forall>j. i < j \<and> j < Suc n \<longrightarrow> dayOf (h ! j) \<noteq> dayOf (h ! i))) [0..<n]
        = filter (\<lambda>i. dayOf (h ! i) \<notin> seen \<and>
                     (\<forall>j. i < j \<and> j < n \<longrightarrow> dayOf (h ! j) \<noteq> dayOf (h ! i))) [0..<n]"
    proof (rule filter_cong [OF refl])
      fix i assume "i \<in> set [0..<n]"
      show "(dayOf (h ! i) \<notin> seen \<and>
               (\<forall>j. i < j \<and> j < Suc n \<longrightarrow> dayOf (h ! j) \<noteq> dayOf (h ! i)))
          = (dayOf (h ! i) \<notin> seen \<and>
               (\<forall>j. i < j \<and> j < n \<longrightarrow> dayOf (h ! j) \<noteq> dayOf (h ! i)))"
        using True by (metis less_Suc_eq)
    qed
    with True Suc.IH [of seen] show ?thesis
      by (simp add: historyWalk_Suc del: historyWalk.simps)
  next
    case False
    have "filter (\<lambda>i. dayOf (h ! i) \<notin> seen \<and>
                     (\<forall>j. i < j \<and> j < Suc n \<longrightarrow> dayOf (h ! j) \<noteq> dayOf (h ! i))) [0..<n]
        = filter (\<lambda>i. dayOf (h ! i) \<notin> insert (dayOf (h ! n)) seen \<and>
                     (\<forall>j. i < j \<and> j < n \<longrightarrow> dayOf (h ! j) \<noteq> dayOf (h ! i))) [0..<n]"
    proof (rule filter_cong [OF refl])
      fix i assume "i \<in> set [0..<n]"
      then have "i < n" by simp
      then show "(dayOf (h ! i) \<notin> seen \<and>
               (\<forall>j. i < j \<and> j < Suc n \<longrightarrow> dayOf (h ! j) \<noteq> dayOf (h ! i)))
          = (dayOf (h ! i) \<notin> insert (dayOf (h ! n)) seen \<and>
               (\<forall>j. i < j \<and> j < n \<longrightarrow> dayOf (h ! j) \<noteq> dayOf (h ! i)))"
        by (metis insert_iff less_Suc_eq)
    qed
    with False Suc.IH [of "insert (dayOf (h ! n)) seen"] show ?thesis
      by (simp add: historyWalk_Suc del: historyWalk.simps)
  qed
qed

lemma historyWalk_dedupView: "historyWalk h (length h) {} = dedupView h"
proof -
  have "filter (\<lambda>i. dayOf (h ! i) \<notin> {} \<and>
                   (\<forall>j. i < j \<and> j < length h \<longrightarrow> dayOf (h ! j) \<noteq> dayOf (h ! i)))
          [0..<length h] = filter (lastOfDay h) [0..<length h]"
    by (rule filter_cong [OF refl]) (simp add: lastOfDay_iff)
  then show ?thesis
    by (simp add: historyWalk_filter dedupView_def del: historyWalk.simps)
qed

lemma lastOfDay_inj:
  assumes "i < length h" "j < length h" "lastOfDay h i" "lastOfDay h j"
      and "dayOf (h ! i) = dayOf (h ! j)"
  shows "i = j"
  using assms unfolding lastOfDay_iff by (metis linorder_neqE_nat)

lemma distinct_dedupView: "distinct (map dayOf (dedupView h))"
proof -
  have "inj_on (\<lambda>i. dayOf (h ! i)) (set (filter (lastOfDay h) [0..<length h]))"
    by (rule inj_onI) (auto dest: lastOfDay_inj)
  then have "distinct (map (\<lambda>i. dayOf (h ! i)) (filter (lastOfDay h) [0..<length h]))"
    by (simp add: distinct_map)
  then show ?thesis
    by (simp add: dedupView_def rev_map [symmetric] o_def)
qed

text \<open>Every day of a history has a last record.\<close>

lemma ex_lastOfDay:
  assumes "i < length h"
  shows "\<exists>k. k < length h \<and> lastOfDay h k \<and> dayOf (h ! k) = dayOf (h ! i)"
proof -
  define S where "S = {k. k < length h \<and> dayOf (h ! k) = dayOf (h ! i)}"
  have fin: "finite S" and ne: "S \<noteq> {}"
    using assms by (auto simp: S_def)
  define k where "k = Max S"
  have kS: "k \<in> S"
    unfolding k_def using fin ne by (rule Max_in)
  have "lastOfDay h k"
    unfolding lastOfDay_iff
  proof (intro allI impI)
    fix j assume j: "k < j \<and> j < length h"
    show "dayOf (h ! j) \<noteq> dayOf (h ! k)"
    proof
      assume "dayOf (h ! j) = dayOf (h ! k)"
      with kS j have "j \<in> S" by (simp add: S_def)
      then have "j \<le> k" unfolding k_def using fin by (rule Max_ge [rotated])
      with j show False by simp
    qed
  qed
  with kS show ?thesis by (auto simp: S_def)
qed

lemma set_dedupView: "set (dedupView h) = {h ! k | k. k < length h \<and> lastOfDay h k}"
  by (auto simp: dedupView_def)

lemma days_dedupView: "dayOf ` set (dedupView h) = dayOf ` set h"
proof
  show "dayOf ` set (dedupView h) \<subseteq> dayOf ` set h"
    by (auto simp: set_dedupView)
  show "dayOf ` set h \<subseteq> dayOf ` set (dedupView h)"
  proof
    fix d assume "d \<in> dayOf ` set h"
    then obtain i where i: "i < length h" "d = dayOf (h ! i)"
      by (auto simp: in_set_conv_nth)
    from ex_lastOfDay [OF i(1)] obtain k where
      k: "k < length h" "lastOfDay h k" "dayOf (h ! k) = dayOf (h ! i)" by blast
    then have "h ! k \<in> set (dedupView h)" by (auto simp: set_dedupView)
    then show "d \<in> dayOf ` set (dedupView h)"
      using i(2) k(3) by (metis imageI)
  qed
qed

text \<open>Records of one calendar day are printed with the same text for the day.\<close>

lemma sameCalendarDay_dayOf:
  "sameCalendarDay (perfDate p) (perfDate q) \<Longrightarrow> dayOf p = dayOf q"
  by (simp add: sameCalendarDay_def dayOf_def Format_humanDate_def)

lemma dayOf_eq_iff: "dayOf p = dayOf q \<longleftrightarrow> sameDayText (perfDate p) (perfDate q)"
  by (simp add: dayOf_def Format_humanDate_eq_iff)

lemma sameCalendarDay_sameDayText: "sameCalendarDay t u \<Longrightarrow> sameDayText t u"
  by (simp add: sameCalendarDay_def sameDayText_def)

lemma lastOfCalendarDay_iff:
  "lastOfCalendarDay h i \<longleftrightarrow>
     (\<forall>j. i < j \<and> j < length h \<longrightarrow> \<not> sameCalendarDay (perfDate (h ! j)) (perfDate (h ! i)))"
proof -
  have "lastOfCalendarDay h i \<longleftrightarrow>
      (\<forall>x. x \<in> set (drop (Suc i) h) \<longrightarrow> \<not> sameCalendarDay (perfDate x) (perfDate (h ! i)))"
    by (auto simp: lastOfCalendarDay_def list_all_iff)
  also have "\<dots> \<longleftrightarrow>
      (\<forall>x. (\<exists>j. Suc i \<le> j \<and> j < length h \<and> h ! j = x)
            \<longrightarrow> \<not> sameCalendarDay (perfDate x) (perfDate (h ! i)))"
    by (simp only: in_set_drop_nth)
  also have "\<dots> \<longleftrightarrow>
      (\<forall>j. i < j \<and> j < length h \<longrightarrow> \<not> sameCalendarDay (perfDate (h ! j)) (perfDate (h ! i)))"
    by (auto simp: Suc_le_eq)
  finally show ?thesis .
qed

lemma daysToldApart_iff:
  "daysToldApart h \<longleftrightarrow>
     (\<forall>p \<in> set h. \<forall>q \<in> set h. dayOf p = dayOf q \<longrightarrow> sameCalendarDay (perfDate p) (perfDate q))"
  unfolding daysToldApart_def list_all_iff dayOf_eq_iff
  using sameCalendarDay_sameDayText by blast

text \<open>Every calendar day of a history has a last record.\<close>

lemma ex_lastOfCalendarDay:
  assumes "i < length h"
  shows "\<exists>k. k < length h \<and> lastOfCalendarDay h k
           \<and> sameCalendarDay (perfDate (h ! k)) (perfDate (h ! i))"
proof -
  define S where "S = {k. k < length h \<and> sameCalendarDay (perfDate (h ! k)) (perfDate (h ! i))}"
  have fin: "finite S" and ne: "S \<noteq> {}"
    using assms by (auto simp: S_def sameCalendarDay_def)
  define k where "k = Max S"
  have kS: "k \<in> S"
    unfolding k_def using fin ne by (rule Max_in)
  have "lastOfCalendarDay h k"
    unfolding lastOfCalendarDay_iff
  proof (intro allI impI)
    fix j assume j: "k < j \<and> j < length h"
    show "\<not> sameCalendarDay (perfDate (h ! j)) (perfDate (h ! k))"
    proof
      assume "sameCalendarDay (perfDate (h ! j)) (perfDate (h ! k))"
      with kS j have "j \<in> S" by (simp add: S_def sameCalendarDay_def)
      then have "j \<le> k" unfolding k_def using fin by (rule Max_ge [rotated])
      with j show False by simp
    qed
  qed
  with kS show ?thesis by (auto simp: S_def)
qed

lemma set_calendarDayView:
  "set (calendarDayView h) = {h ! k | k. k < length h \<and> lastOfCalendarDay h k}"
  by (auto simp: calendarDayView_def)

lemma dedupView_calendarDayView:
  assumes "daysToldApart h"
  shows "dedupView h = calendarDayView h"
proof -
  have "filter (lastOfDay h) [0..<length h] = filter (lastOfCalendarDay h) [0..<length h]"
  proof (rule filter_cong [OF refl])
    fix i assume "i \<in> set [0..<length h]"
    then have i: "i < length h" by simp
    have "dayOf (h ! j) = dayOf (h ! i)
        \<longleftrightarrow> sameCalendarDay (perfDate (h ! j)) (perfDate (h ! i))" if "j < length h" for j
    proof
      assume "dayOf (h ! j) = dayOf (h ! i)"
      with assms i that show "sameCalendarDay (perfDate (h ! j)) (perfDate (h ! i))"
        unfolding daysToldApart_iff by (meson nth_mem)
    next
      assume "sameCalendarDay (perfDate (h ! j)) (perfDate (h ! i))"
      then show "dayOf (h ! j) = dayOf (h ! i)"
        by (rule sameCalendarDay_dayOf)
    qed
    then show "lastOfDay h i = lastOfCalendarDay h i"
      unfolding lastOfDay_iff lastOfCalendarDay_iff by blast
  qed
  then show ?thesis
    by (simp add: dedupView_def calendarDayView_def)
qed

lemma calendarDayView_dedupView:
  assumes "dedupView h = calendarDayView h"
  shows "daysToldApart h"
  unfolding daysToldApart_iff
proof (intro ballI impI)
  fix p q assume p: "p \<in> set h" and q: "q \<in> set h" and e: "dayOf p = dayOf q"
  from p obtain i where i: "i < length h" "h ! i = p" by (auto simp: in_set_conv_nth)
  from q obtain j where j: "j < length h" "h ! j = q" by (auto simp: in_set_conv_nth)
  from ex_lastOfCalendarDay [OF i(1)] i(2) obtain k where
    k: "k < length h" "lastOfCalendarDay h k" "sameCalendarDay (perfDate (h ! k)) (perfDate p)"
    by blast
  from ex_lastOfCalendarDay [OF j(1)] j(2) obtain l where
    l: "l < length h" "lastOfCalendarDay h l" "sameCalendarDay (perfDate (h ! l)) (perfDate q)"
    by blast
  from k l have m: "h ! k \<in> set (dedupView h)" "h ! l \<in> set (dedupView h)"
    unfolding assms set_calendarDayView by blast+
  have "dayOf (h ! k) = dayOf p" "dayOf (h ! l) = dayOf q"
    using k(3) l(3) by (simp_all add: sameCalendarDay_dayOf)
  with e have "dayOf (h ! k) = dayOf (h ! l)" by simp
  moreover have "inj_on dayOf (set (dedupView h))"
    using distinct_dedupView [of h] by (simp add: distinct_map)
  ultimately have "h ! k = h ! l"
    using m by (simp add: inj_on_def)
  with k(3) l(3) show "sameCalendarDay (perfDate p) (perfDate q)"
    by (simp add: sameCalendarDay_def)
qed

text \<open>
  C1, as the code has it. For a symbol with a history, \<^verbatim>\<open>printAnalysis\<close> walks the
  history from the newest record to the oldest and prints a record only when the text
  of its day, in the layout \<^verbatim>\<open>02-Jan-06\<close>, has not come up before in the walk. It
  prints exactly the records that are the last appended with their day text, newest
  first: the record at index \<open>i\<close> is one of them when no later record agrees with it
  in the day of the month, the month and the last two digits of the year. No two
  printed records have the same day text, and every day text of the history is printed.
  Two records have the same day text exactly when they agree in these three; records of
  one calendar day do, and so do records on the same day and month of two years that
  end in the same two digits. What is printed is the view of the specification, the
  last appended record of each calendar day, exactly for the histories in which the
  layout tells the calendar days apart. Rendering returns the text only: the model of
  \<^verbatim>\<open>printAnalysis\<close> has no history to give back, as the source has no assignment to
  one.
\<close>

theorem printAnalysis_dedup:
  "historyWalk history (length history) {} = dedupView history \<and>
   distinct (map dayOf (historyWalk history (length history) {})) \<and>
   dayOf ` set (historyWalk history (length history) {}) = dayOf ` set history \<and>
   (dayOf p = dayOf q \<longleftrightarrow> sameDayText (perfDate p) (perfDate q)) \<and>
   (sameCalendarDay (perfDate p) (perfDate q) \<longrightarrow> sameDayText (perfDate p) (perfDate q)) \<and>
   (lastOfDay history i \<longleftrightarrow>
      (\<forall>j. i < j \<and> j < length history
           \<longrightarrow> \<not> sameDayText (perfDate (history ! j)) (perfDate (history ! i)))) \<and>
   (historyWalk history (length history) {} = calendarDayView history
      \<longleftrightarrow> daysToldApart history) \<and>
   (H (Symbol v) = Some history \<longrightarrow>
      printBlock H v = headerLine v @ concat (map historyLine (dedupView history)) @ [newline])"
proof (intro conjI impI)
  show "historyWalk history (length history) {} = dedupView history"
    by (rule historyWalk_dedupView)
  show "distinct (map dayOf (historyWalk history (length history) {}))"
    by (simp only: historyWalk_dedupView distinct_dedupView)
  show "dayOf ` set (historyWalk history (length history) {}) = dayOf ` set history"
    by (simp only: historyWalk_dedupView days_dedupView)
  show "dayOf p = dayOf q \<longleftrightarrow> sameDayText (perfDate p) (perfDate q)"
    by (rule dayOf_eq_iff)
  show "sameDayText (perfDate p) (perfDate q)" if "sameCalendarDay (perfDate p) (perfDate q)"
    using that by (rule sameCalendarDay_sameDayText)
  show "lastOfDay history i \<longleftrightarrow>
      (\<forall>j. i < j \<and> j < length history
           \<longrightarrow> \<not> sameDayText (perfDate (history ! j)) (perfDate (history ! i)))"
    unfolding lastOfDay_iff dayOf_eq_iff by (rule refl)
  show "historyWalk history (length history) {} = calendarDayView history
      \<longleftrightarrow> daysToldApart history"
    unfolding historyWalk_dedupView
    using dedupView_calendarDayView calendarDayView_dedupView by blast
  show "printBlock H v = headerLine v @ concat (map historyLine (dedupView history)) @ [newline]"
    if "H (Symbol v) = Some history"
    using that by (simp add: printBlock_def historyWalk_dedupView del: historyWalk.simps)
qed

lemma dedupView_sampleHistory: "dedupView sampleHistory = [sampleP3, sampleP2]"
  by (simp add: dedupView_def lastOfDay_def dayOf_def text_eval sample_defs)

lemma calendarDayView_sampleHistory: "calendarDayView sampleHistory = [sampleP3, sampleP2]"
  by (simp add: calendarDayView_def lastOfCalendarDay_def sameCalendarDay_def sample_defs)

lemma daysToldApart_sampleHistory: "daysToldApart sampleHistory"
  by (simp add: daysToldApart_def sameDayText_def sameCalendarDay_def sample_defs)

theorem printAnalysis_dedup_witness:
  "(0::nat) < 1 \<and> 1 < length sampleHistory \<and>
   sameDayText (perfDate (sampleHistory ! 1)) (perfDate (sampleHistory ! 0)) \<and>
   sameCalendarDay (perfDate sampleP1) (perfDate sampleP2) \<and>
   daysToldApart sampleHistory \<and>
   [''AAPL'' \<mapsto> sampleHistory] (Symbol sampleAAPL) = Some sampleHistory \<and>
   historyWalk sampleHistory (length sampleHistory) {} = [sampleP3, sampleP2] \<and>
   calendarDayView sampleHistory = [sampleP3, sampleP2] \<and>
   \<not> lastOfDay sampleHistory 0 \<and>
   printBlock [''AAPL'' \<mapsto> sampleHistory] sampleAAPL =
     unlines [''===AAPL 100.00 02-Jan-06 ==='', ''12-Mar-24 5.50 %'', ''11-Mar-24 4.00 %'', []]"
proof -
  have a: "(0::nat) < 1 \<and> 1 < length sampleHistory \<and>
      sameDayText (perfDate (sampleHistory ! 1)) (perfDate (sampleHistory ! 0))"
    by (simp add: sameDayText_def sample_defs)
  have s: "sameCalendarDay (perfDate sampleP1) (perfDate sampleP2)"
    by (simp add: sameCalendarDay_def sample_defs)
  have b: "[''AAPL'' \<mapsto> sampleHistory] (Symbol sampleAAPL) = Some sampleHistory"
    by (simp add: sampleAAPL_def)
  note d = daysToldApart_sampleHistory
  note t = printAnalysis_dedup [of sampleHistory sampleP1 sampleP2 0
      "[''AAPL'' \<mapsto> sampleHistory]" sampleAAPL]
  have "historyWalk sampleHistory (length sampleHistory) {} = calendarDayView sampleHistory"
    using t d by blast
  then have w: "historyWalk sampleHistory (length sampleHistory) {} = [sampleP3, sampleP2]"
    by (simp only: calendarDayView_sampleHistory)
  have l: "\<not> lastOfDay sampleHistory 0"
    using t a by blast
  have "printBlock [''AAPL'' \<mapsto> sampleHistory] sampleAAPL =
      headerLine sampleAAPL @ concat (map historyLine (dedupView sampleHistory)) @ [newline]"
    using t b by blast
  also have "\<dots> = headerLine sampleAAPL @ historyLine sampleP3 @ historyLine sampleP2 @ [newline]"
    by (simp add: dedupView_sampleHistory)
  also have "\<dots> =
     unlines [''===AAPL 100.00 02-Jan-06 ==='', ''12-Mar-24 5.50 %'', ''11-Mar-24 4.00 %'', []]"
    by (simp add: headerLine_def historyLine_def unlines_def text_eval sample_defs)
  finally have p: "printBlock [''AAPL'' \<mapsto> sampleHistory] sampleAAPL =
     unlines [''===AAPL 100.00 02-Jan-06 ==='', ''12-Mar-24 5.50 %'', ''11-Mar-24 4.00 %'', []]" .
  from a s d b w calendarDayView_sampleHistory l p show ?thesis
    by blast
qed

text \<open>
  The claim C1 as the specification states it fails on the history of a record of
  12 March 1924 followed by one of 12 March 2024. The two are of different calendar
  days, so both are in the view of the specification; but both are printed as
  \<^verbatim>\<open>12-Mar-24\<close>, and the walk prints the later one only: the one record of
  12 March 1924 is left out of the report.
\<close>

theorem printAnalysis_dedup_counterexample:
  "\<not> sameCalendarDay (perfDate sampleP1924) (perfDate sampleP3) \<and>
   dayOf sampleP1924 = ''12-Mar-24'' \<and> dayOf sampleP3 = ''12-Mar-24'' \<and>
   calendarDayView sampleCentury = [sampleP3, sampleP1924] \<and>
   historyWalk sampleCentury (length sampleCentury) {} = [sampleP3] \<and>
   printBlock [''AAPL'' \<mapsto> sampleCentury] sampleAAPL =
     unlines [''===AAPL 100.00 02-Jan-06 ==='', ''12-Mar-24 5.50 %'', []]"
proof -
  have 1: "\<not> sameCalendarDay (perfDate sampleP1924) (perfDate sampleP3)"
    by (simp add: sameCalendarDay_def sampleP1924_def mar12_1924_def sample_defs)
  have 2: "dayOf sampleP1924 = ''12-Mar-24''" "dayOf sampleP3 = ''12-Mar-24''"
    by (simp_all add: dayOf_def sampleP1924_def mar12_1924_def text_eval sample_defs)
  have 3: "calendarDayView sampleCentury = [sampleP3, sampleP1924]"
    by (simp add: calendarDayView_def lastOfCalendarDay_def sameCalendarDay_def
        sampleCentury_def sampleP1924_def mar12_1924_def sample_defs)
  have 4: "historyWalk sampleCentury (length sampleCentury) {} = [sampleP3]"
    by (simp add: sampleCentury_def sampleP1924_def mar12_1924_def text_eval sample_defs)
  have 5: "printBlock [''AAPL'' \<mapsto> sampleCentury] sampleAAPL =
     unlines [''===AAPL 100.00 02-Jan-06 ==='', ''12-Mar-24 5.50 %'', []]"
    by (simp add: printBlock_def headerLine_def historyLine_def unlines_def sampleCentury_def
        sampleP1924_def mar12_1924_def text_eval sample_defs)
  from 1 2 3 4 5 show ?thesis
    by blast
qed

section \<open>The report\<close>

lemma printLoop_concat: "printLoop H vs = concat (map (printBlock H) vs)"
  by (induction vs) simp_all

lemma printLoop_append: "printLoop H (xs @ ys) = printLoop H xs @ printLoop H ys"
  by (simp add: printLoop_concat)

lemma printBlock_cong:
  "H' (Symbol v) = H (Symbol v) \<Longrightarrow> printBlock H' v = printBlock H v"
  by (simp add: printBlock_def)

lemma printLoop_cong:
  "(\<And>v. v \<in> set vs \<Longrightarrow> H' (Symbol v) = H (Symbol v)) \<Longrightarrow> printLoop H' vs = printLoop H vs"
proof (induction vs)
  case Nil
  show ?case by simp
next
  case (Cons v vs)
  have "printBlock H' v = printBlock H v"
    by (rule printBlock_cong) (simp add: Cons.prems)
  moreover have "printLoop H' vs = printLoop H vs"
    by (rule Cons.IH) (simp add: Cons.prems)
  ultimately show ?case by simp
qed

lemma printBlock_starts:
  "\<exists>rest. printBlock H v = ''==='' @ Symbol v @ '' '' @ rest"
  unfolding printBlock_def headerLine_def append_assoc by (rule exI) (rule refl)

text \<open>
  C6. The report is the blocks of the investments, one for each, in the order of
  \<^verbatim>\<open>conf.Investments\<close>: the report of two lists of investments one after the other is the
  report of the first followed by the report of the second. Every block starts with
  its investment's symbol. The history map is only looked up at the symbols of the
  investments: a map that agrees with it there gives the same report, whatever other
  keys it has.
\<close>

theorem printAnalysis_order:
  "printAnalysis conf = concat (map (printBlock (History conf)) (Investments conf)) \<and>
   printAnalysis (conf\<lparr>Investments := xs @ ys\<rparr>) =
     printAnalysis (conf\<lparr>Investments := xs\<rparr>) @ printAnalysis (conf\<lparr>Investments := ys\<rparr>) \<and>
   (\<exists>rest. printBlock (History conf) v = ''==='' @ Symbol v @ '' '' @ rest) \<and>
   ((\<forall>v \<in> set (Investments conf). H' (Symbol v) = History conf (Symbol v)) \<longrightarrow>
      printAnalysis (conf\<lparr>History := H'\<rparr>) = printAnalysis conf)"
proof (intro conjI impI)
  show "printAnalysis conf = concat (map (printBlock (History conf)) (Investments conf))"
    by (simp add: printAnalysis_def printLoop_concat)
  show "printAnalysis (conf\<lparr>Investments := xs @ ys\<rparr>) =
      printAnalysis (conf\<lparr>Investments := xs\<rparr>) @ printAnalysis (conf\<lparr>Investments := ys\<rparr>)"
    by (simp add: printAnalysis_def printLoop_append)
  show "\<exists>rest. printBlock (History conf) v = ''==='' @ Symbol v @ '' '' @ rest"
    by (rule printBlock_starts)
  show "printAnalysis (conf\<lparr>History := H'\<rparr>) = printAnalysis conf"
    if a: "\<forall>v \<in> set (Investments conf). H' (Symbol v) = History conf (Symbol v)"
  proof -
    have "printLoop H' (Investments conf) = printLoop (History conf) (Investments conf)"
      by (rule printLoop_cong) (simp add: a)
    then show ?thesis
      by (simp add: printAnalysis_def)
  qed
qed

theorem printAnalysis_order_witness:
  "list_all (\<lambda>v. ((History sampleConfig)(''ORPHAN'' \<mapsto> [sampleP1])) (Symbol v)
                  = History sampleConfig (Symbol v)) (Investments sampleConfig) \<and>
   printAnalysis (sampleConfig\<lparr>History := (History sampleConfig)(''ORPHAN'' \<mapsto> [sampleP1])\<rparr>)
     = printAnalysis sampleConfig \<and>
   printAnalysis sampleConfig =
     printBlock (History sampleConfig) sampleGOOG @ printBlock (History sampleConfig) sampleAAPL"
proof -
  have h: "\<forall>v \<in> set (Investments sampleConfig).
      ((History sampleConfig)(''ORPHAN'' \<mapsto> [sampleP1])) (Symbol v)
        = History sampleConfig (Symbol v)"
    by (simp add: sampleConfig_def sampleGOOG_def sampleAAPL_def)
  have c: "Investments sampleConfig = [sampleGOOG, sampleAAPL]"
    by (simp add: sampleConfig_def)
  note t = printAnalysis_order [of sampleConfig "[]" "[]" sampleGOOG
        "(History sampleConfig)(''ORPHAN'' \<mapsto> [sampleP1])"]
  have 1: "printAnalysis
      (sampleConfig\<lparr>History := (History sampleConfig)(''ORPHAN'' \<mapsto> [sampleP1])\<rparr>)
      = printAnalysis sampleConfig"
    using t h by blast
  have "printAnalysis sampleConfig =
      concat (map (printBlock (History sampleConfig)) (Investments sampleConfig))"
    using t by blast
  then have 2: "printAnalysis sampleConfig =
      printBlock (History sampleConfig) sampleGOOG @ printBlock (History sampleConfig) sampleAAPL"
    by (simp add: c)
  from h 1 2 show ?thesis
    by (simp only: list_all_iff simp_thms)
qed

subsection \<open>The text of a block\<close>

lemma dec2_two_digits:
  assumes "n < 100"
  shows "\<exists>a b. dec2 n = [a, b] \<and> isDigit a \<and> isDigit b"
proof (cases "n < 10")
  case True
  then have "dec2 n = [CHR ''0'', digit n]" by (simp add: dec2_def dec_small)
  moreover have "isDigit (CHR ''0'')" by (simp add: isDigit_def)
  ultimately show ?thesis using isDigit_digit by blast
next
  case False
  with assms have "dec n = dec (n div 10) @ [digit n]" "n div 10 < 10"
    by (simp_all add: dec_large)
  with False have "dec2 n = [digit (n div 10), digit n]"
    by (simp add: dec2_def dec_small)
  then show ?thesis using isDigit_digit by blast
qed

text \<open>\<^verbatim>\<open>%.2f\<close> of a finite value: a sign or none, digits, a point and two digits.\<close>

lemma fmt_2f_finite:
  assumes "isFinite x"
  shows "\<exists>sgn ds a b. fmt_2f x = sgn @ ds @ ''.'' @ [a, b] \<and> (sgn = [] \<or> sgn = ''-'')
           \<and> ds \<noteq> [] \<and> list_all isDigit ds \<and> isDigit a \<and> isDigit b"
proof (cases x)
  case NaN
  with assms show ?thesis by (simp add: isFinite_def)
next
  case (Infty s)
  with assms show ?thesis by (simp add: isFinite_def)
next
  case (Zero s)
  have z: "isDigit (CHR ''0'')" by (simp add: isDigit_def)
  show ?thesis
  proof (intro exI conjI)
    show "fmt_2f x = (if s then ''-'' else []) @ ''0'' @ ''.'' @ [CHR ''0'', CHR ''0'']"
      by (simp add: Zero)
    show "(if s then ''-'' else []) = [] \<or> (if s then ''-'' else []) = ''-''" by simp
    show "''0'' \<noteq> []" by simp
    show "list_all isDigit ''0''" using z by simp
    show "isDigit (CHR ''0'')" by (rule z)
    show "isDigit (CHR ''0'')" by (rule z)
  qed
next
  case (Fin q)
  define n where "n = nat (round_half_even (\<bar>q\<bar> * 100))"
  have "n mod 100 < 100" by simp
  then obtain a b where ab: "dec2 (n mod 100) = [a, b]" "isDigit a" "isDigit b"
    using dec2_two_digits by blast
  show ?thesis
  proof (intro exI conjI)
    show "fmt_2f x = (if q < 0 then ''-'' else []) @ dec (n div 100) @ ''.'' @ [a, b]"
      by (simp add: Fin n_def [symmetric] ab Let_def)
    show "(if q < 0 then ''-'' else []) = [] \<or> (if q < 0 then ''-'' else []) = ''-''" by simp
    show "dec (n div 100) \<noteq> []" using dec_digits by blast
    show "list_all isDigit (dec (n div 100))" using dec_digits by blast
    show "isDigit a" by (rule ab)
    show "isDigit b" by (rule ab)
  qed
qed

text \<open>The layout \<^verbatim>\<open>02-Jan-06\<close>: two digits, the month, two digits.\<close>

lemma Format_humanDate_shape:
  assumes "day t < 100"
  shows "\<exists>d1 d2 y1 y2.
           Format_humanDate t = [d1, d2] @ ''-'' @ monthAbbrev (month t) @ ''-'' @ [y1, y2]
           \<and> isDigit d1 \<and> isDigit d2 \<and> isDigit y1 \<and> isDigit y2"
proof -
  obtain d1 d2 where d: "dec2 (day t) = [d1, d2]" "isDigit d1" "isDigit d2"
    using dec2_two_digits [OF assms] by blast
  have "nat (\<bar>year t\<bar> mod 100) < 100" by simp
  then obtain y1 y2 where
    y: "dec2 (nat (\<bar>year t\<bar> mod 100)) = [y1, y2]" "isDigit y1" "isDigit y2"
    using dec2_two_digits by blast
  show ?thesis
  proof (intro exI conjI)
    show "Format_humanDate t = [d1, d2] @ ''-'' @ monthAbbrev (month t) @ ''-'' @ [y1, y2]"
      by (simp add: Format_humanDate_def d y)
  qed (rule d y)+
qed

text \<open>
  C5, as the code has it. The block of an investment \<open>v\<close> whose symbol has no history
  is its header line and nothing else: no blank line follows it. The block of an
  investment \<open>u\<close> whose symbol has a history is its header line, one line for each
  record of the view, and then an empty line. The header line is
  \<^verbatim>\<open>===<symbol> <total> <date> ===\<close> and a history line is \<^verbatim>\<open><date> <rate> %\<close>, with a
  space before the percent sign. A number is printed by \<^verbatim>\<open>%.2f\<close>: for every finite
  value, with exactly two digits after the point. A date is printed in the layout
  \<^verbatim>\<open>02-Jan-06\<close>.
\<close>

theorem printBlock_format:
  "(H (Symbol v) = None \<longrightarrow> printBlock H v = headerLine v) \<and>
   (H (Symbol u) = Some history \<longrightarrow>
      printBlock H u = headerLine u @ concat (map historyLine (dedupView history)) @ [newline]) \<and>
   headerLine v = ''==='' @ Symbol v @ '' '' @ fmt_2f (Total v) @ '' ''
      @ Format_humanDate (Date v) @ '' ==='' @ [newline] \<and>
   historyLine h = Format_humanDate (perfDate h) @ '' '' @ fmt_2f (CompoundInterest h)
      @ '' %'' @ [newline] \<and>
   (isFinite x \<longrightarrow>
      (\<exists>sgn ds a b. fmt_2f x = sgn @ ds @ ''.'' @ [a, b] \<and> (sgn = [] \<or> sgn = ''-'')
         \<and> ds \<noteq> [] \<and> list_all isDigit ds \<and> isDigit a \<and> isDigit b)) \<and>
   (day t < 100 \<longrightarrow>
      (\<exists>d1 d2 y1 y2.
         Format_humanDate t = [d1, d2] @ ''-'' @ monthAbbrev (month t) @ ''-'' @ [y1, y2]
         \<and> isDigit d1 \<and> isDigit d2 \<and> isDigit y1 \<and> isDigit y2))"
proof (intro conjI impI)
  show "printBlock H v = headerLine v" if "H (Symbol v) = None"
    using that by (simp add: printBlock_def)
  show "printBlock H u = headerLine u @ concat (map historyLine (dedupView history)) @ [newline]"
    if "H (Symbol u) = Some history"
    using that by (simp add: printBlock_def historyWalk_dedupView del: historyWalk.simps)
  show "headerLine v = ''==='' @ Symbol v @ '' '' @ fmt_2f (Total v) @ '' ''
      @ Format_humanDate (Date v) @ '' ==='' @ [newline]"
    by (simp add: headerLine_def)
  show "historyLine h = Format_humanDate (perfDate h) @ '' '' @ fmt_2f (CompoundInterest h)
      @ '' %'' @ [newline]"
    by (simp add: historyLine_def)
  show "\<exists>sgn ds a b. fmt_2f x = sgn @ ds @ ''.'' @ [a, b] \<and> (sgn = [] \<or> sgn = ''-'')
         \<and> ds \<noteq> [] \<and> list_all isDigit ds \<and> isDigit a \<and> isDigit b"
    if "isFinite x"
    using that by (rule fmt_2f_finite)
  show "\<exists>d1 d2 y1 y2.
         Format_humanDate t = [d1, d2] @ ''-'' @ monthAbbrev (month t) @ ''-'' @ [y1, y2]
         \<and> isDigit d1 \<and> isDigit d2 \<and> isDigit y1 \<and> isDigit y2"
    if "day t < 100"
    using that by (rule Format_humanDate_shape)
qed

theorem printBlock_format_witness:
  "History sampleConfig (Symbol sampleGOOG) = None \<and>
   History sampleConfig (Symbol sampleAAPL) = Some sampleHistory \<and>
   isFinite (Fin 100) \<and> day jan2_2006 < 100 \<and>
   printBlock (History sampleConfig) sampleGOOG = unlines [''===GOOG 100.00 02-Jan-06 ===''] \<and>
   printBlock (History sampleConfig) sampleAAPL =
     unlines [''===AAPL 100.00 02-Jan-06 ==='', ''12-Mar-24 5.50 %'', ''11-Mar-24 4.00 %'', []]"
proof -
  have a: "History sampleConfig (Symbol sampleGOOG) = None"
    by (simp add: sampleConfig_def sampleGOOG_def)
  have b: "History sampleConfig (Symbol sampleAAPL) = Some sampleHistory"
    by (simp add: sampleConfig_def sampleAAPL_def)
  have c: "isFinite (Fin 100)" "day jan2_2006 < 100"
    by (simp_all add: isFinite_def jan2_2006_def)
  note t = printBlock_format [of "History sampleConfig" sampleGOOG sampleAAPL sampleHistory
      sampleP1 "Fin 100" jan2_2006]
  have "printBlock (History sampleConfig) sampleGOOG = headerLine sampleGOOG"
    using t a by blast
  also have "\<dots> = unlines [''===GOOG 100.00 02-Jan-06 ==='']"
    by (simp add: headerLine_def unlines_def text_eval sample_defs)
  finally have 1: "printBlock (History sampleConfig) sampleGOOG
      = unlines [''===GOOG 100.00 02-Jan-06 ==='']" .
  have "printBlock (History sampleConfig) sampleAAPL =
      headerLine sampleAAPL @ concat (map historyLine (dedupView sampleHistory)) @ [newline]"
    using t b by blast
  also have "\<dots> = headerLine sampleAAPL @ historyLine sampleP3 @ historyLine sampleP2 @ [newline]"
    by (simp add: dedupView_sampleHistory)
  also have "\<dots> =
     unlines [''===AAPL 100.00 02-Jan-06 ==='', ''12-Mar-24 5.50 %'', ''11-Mar-24 4.00 %'', []]"
    by (simp add: headerLine_def historyLine_def unlines_def text_eval sample_defs)
  finally have 2: "printBlock (History sampleConfig) sampleAAPL =
     unlines [''===AAPL 100.00 02-Jan-06 ==='', ''12-Mar-24 5.50 %'', ''11-Mar-24 4.00 %'', []]" .
  from a b c 1 2 show ?thesis
    by blast
qed

text \<open>
  The claim C5 as the specification states it fails on this config of two investments,
  the first without a history: no blank line stands between the two blocks, and a
  history line ends in a space and a percent sign.
\<close>

theorem printAnalysis_format_counterexample:
  "printAnalysis sampleConfig =
     unlines [''===GOOG 100.00 02-Jan-06 ==='',
              ''===AAPL 100.00 02-Jan-06 ==='',
              ''12-Mar-24 5.50 %'',
              ''11-Mar-24 4.00 %'',
              []]"
  by (simp add: printAnalysis_def printBlock_def headerLine_def historyLine_def unlines_def
        text_eval sample_defs)

section \<open>The analysis run\<close>

lemma analysisLoop_Cons_fail:
  "snd (GetPrice E (priceCalls w) (Symbol i)) = Some err \<Longrightarrow>
   analysisLoop E (i # rest) H w = (Inl err, w\<lparr>priceCalls := Suc (priceCalls w)\<rparr>)"
  by (cases "GetPrice E (priceCalls w) (Symbol i)") simp

lemma analysisLoop_Cons_ok:
  "snd (GetPrice E (priceCalls w) (Symbol i)) = None \<Longrightarrow>
   analysisLoop E (i # rest) H w =
     analysisLoop E rest
       (appendHistory H (Symbol i)
          \<lparr>perfSymbol = Symbol i, Price = fst (GetPrice E (priceCalls w) (Symbol i)),
             CompoundInterest =
               currentRate E (Now E (nowCalls w)) i (fst (GetPrice E (priceCalls w) (Symbol i))),
             perfDate = Now E (Suc (nowCalls w))\<rparr>)
       (w\<lparr>priceCalls := Suc (priceCalls w), nowCalls := Suc (Suc (nowCalls w))\<rparr>)"
  by (cases "GetPrice E (priceCalls w) (Symbol i)") (simp add: Let_def)

text \<open>
  The loop up to its first failing fetch, the one for the investment at index \<open>j\<close>: it
  returns that error, having asked the quote service \<open>j + 1\<close> times and the clock
  \<open>2 * j\<close> times, and nothing else of the world has changed.
\<close>

lemma analysisLoop_first_failure:
  assumes "j < length xs"
      and "snd (GetPrice E (priceCalls w + j) (Symbol (xs ! j))) = Some err"
      and "\<forall>k<j. snd (GetPrice E (priceCalls w + k) (Symbol (xs ! k))) = None"
  shows "analysisLoop E xs H w =
           (Inl err, w\<lparr>priceCalls := priceCalls w + j + 1, nowCalls := nowCalls w + 2 * j\<rparr>)"
  using assms
proof (induction xs arbitrary: j H w)
  case Nil
  then show ?case by simp
next
  case (Cons i rest)
  show ?case
  proof (cases j)
    case 0
    with Cons.prems show ?thesis
      by (simp add: analysisLoop_Cons_fail del: analysisLoop.simps)
  next
    case (Suc j1)
    define w1 where
      "w1 = w\<lparr>priceCalls := Suc (priceCalls w), nowCalls := Suc (Suc (nowCalls w))\<rparr>"
    have ok: "snd (GetPrice E (priceCalls w) (Symbol i)) = None"
      using Cons.prems(3) Suc by (metis add.right_neutral nth_Cons_0 zero_less_Suc)
    have 1: "j1 < length rest"
      using Cons.prems(1) Suc by simp
    have 2: "snd (GetPrice E (priceCalls w1 + j1) (Symbol (rest ! j1))) = Some err"
      using Cons.prems(2) Suc by (simp add: w1_def)
    have 3: "\<forall>k<j1. snd (GetPrice E (priceCalls w1 + k) (Symbol (rest ! k))) = None"
    proof (intro allI impI)
      fix k assume "k < j1"
      then have "Suc k < j" using Suc by simp
      with Cons.prems(3)
      have "snd (GetPrice E (priceCalls w + Suc k) (Symbol ((i # rest) ! Suc k))) = None"
        by blast
      then show "snd (GetPrice E (priceCalls w1 + k) (Symbol (rest ! k))) = None"
        by (simp add: w1_def)
    qed
    show ?thesis
      by (simp add: analysisLoop_Cons_ok [OF ok] w1_def [symmetric] Cons.IH [OF 1 2 3]
            del: analysisLoop.simps) (simp add: w1_def Suc)
  qed
qed

text \<open>A run in which some fetch would fail has a first failing fetch.\<close>

lemma first_failure_exists:
  assumes "\<exists>j<length xs. snd (GetPrice E (pc + j) (Symbol (xs ! j))) \<noteq> None"
  shows "\<exists>j err. j < length xs \<and> snd (GetPrice E (pc + j) (Symbol (xs ! j))) = Some err
           \<and> (\<forall>k<j. snd (GetPrice E (pc + k) (Symbol (xs ! k))) = None)"
proof -
  define P where
    "P j \<longleftrightarrow> j < length xs \<and> snd (GetPrice E (pc + j) (Symbol (xs ! j))) \<noteq> None" for j
  from assms obtain j0 where "P j0" by (auto simp: P_def)
  define j where "j = (LEAST j. P j)"
  have Pj: "P j" unfolding j_def using \<open>P j0\<close> by (rule LeastI)
  have least: "\<And>k. k < j \<Longrightarrow> \<not> P k" unfolding j_def by (rule not_less_Least)
  from Pj obtain err where err: "snd (GetPrice E (pc + j) (Symbol (xs ! j))) = Some err"
    by (auto simp: P_def)
  have "\<forall>k<j. snd (GetPrice E (pc + k) (Symbol (xs ! k))) = None"
  proof (intro allI impI)
    fix k assume "k < j"
    then have "\<not> P k" by (rule least)
    moreover have "k < length xs" using \<open>k < j\<close> Pj by (simp add: P_def)
    ultimately show "snd (GetPrice E (pc + k) (Symbol (xs ! k))) = None" by (simp add: P_def)
  qed
  with Pj err show ?thesis by (auto simp: P_def)
qed

lemma analysis_first_failure:
  assumes "parseConfig w confFile = (conf, None)"
      and "j < length (Investments conf)"
      and "snd (GetPrice E (priceCalls w + j) (Symbol (Investments conf ! j))) = Some err"
      and "\<forall>k<j. snd (GetPrice E (priceCalls w + k) (Symbol (Investments conf ! k))) = None"
  shows "analysis E confFile w =
           (Some err, w\<lparr>priceCalls := priceCalls w + j + 1, nowCalls := nowCalls w + 2 * j\<rparr>)"
  by (simp add: analysis_def assms(1) analysisLoop_first_failure [OF assms(2,3,4)])

text \<open>
  C2. When the config has been read and the fetch for some investment fails, the run
  returns the error of the first failing fetch, at index \<open>j\<close>. The world it leaves is
  the world it started in but for the two counters: the quote service has been asked
  \<open>j + 1\<close> times and the clock \<open>2 * j\<close> times, so no price was fetched, no rate
  computed and no record made for a later investment. No file has changed, nothing has
  been printed and nothing has been handed to mailgun.
\<close>

theorem analysis_aborts:
  assumes "parseConfig w confFile = (conf, None)"
      and "\<exists>j<length (Investments conf).
             snd (GetPrice E (priceCalls w + j) (Symbol (Investments conf ! j))) \<noteq> None"
  shows "\<exists>j err.
           j < length (Investments conf) \<and>
           snd (GetPrice E (priceCalls w + j) (Symbol (Investments conf ! j))) = Some err \<and>
           (\<forall>k<j. snd (GetPrice E (priceCalls w + k) (Symbol (Investments conf ! k))) = None) \<and>
           analysis E confFile w =
             (Some err,
              w\<lparr>priceCalls := priceCalls w + j + 1, nowCalls := nowCalls w + 2 * j\<rparr>) \<and>
           files (snd (analysis E confFile w)) = files w \<and>
           stdout (snd (analysis E confFile w)) = stdout w \<and>
           sent (snd (analysis E confFile w)) = sent w"
proof -
  from first_failure_exists [OF assms(2)] obtain j err where
    j: "j < length (Investments conf)"
    and e: "snd (GetPrice E (priceCalls w + j) (Symbol (Investments conf ! j))) = Some err"
    and b: "\<forall>k<j. snd (GetPrice E (priceCalls w + k) (Symbol (Investments conf ! k))) = None"
    by blast
  have a: "analysis E confFile w =
      (Some err, w\<lparr>priceCalls := priceCalls w + j + 1, nowCalls := nowCalls w + 2 * j\<rparr>)"
    by (rule analysis_first_failure [OF assms(1) j e b])
  show ?thesis
    apply (rule exI [of _ j], rule exI [of _ err])
    using j e b a by simp
qed

lemma analysis_sampleWorld3:
  "analysis sampleEnv ''config.json'' sampleWorld3 =
     (Some (OtherError ''MSFT''), sampleWorld3\<lparr>priceCalls := 2, nowCalls := 2\<rparr>)"
proof -
  have p: "parseConfig sampleWorld3 ''config.json'' = (sampleConfig3, None)"
    by (simp add: parseConfig_def sampleWorld3_def)
  have j: "1 < length (Investments sampleConfig3)"
    by (simp add: sampleConfig3_def)
  have e: "snd (GetPrice sampleEnv (priceCalls sampleWorld3 + 1)
               (Symbol (Investments sampleConfig3 ! 1))) = Some (OtherError ''MSFT'')"
    by (simp add: sampleConfig3_def sampleEnv_def sampleMSFT_def)
  have b: "\<forall>k<1. snd (GetPrice sampleEnv (priceCalls sampleWorld3 + k)
               (Symbol (Investments sampleConfig3 ! k))) = None"
    by (simp add: sampleConfig3_def sampleEnv_def sampleAAPL_def)
  show ?thesis
    using analysis_first_failure [OF p j e b] by (simp add: sampleWorld3_def)
qed

theorem analysis_aborts_witness:
  "parseConfig sampleWorld3 ''config.json'' = (sampleConfig3, None) \<and>
   (\<exists>j<length (Investments sampleConfig3).
      snd (GetPrice sampleEnv (priceCalls sampleWorld3 + j)
        (Symbol (Investments sampleConfig3 ! j))) \<noteq> None) \<and>
   analysis sampleEnv ''config.json'' sampleWorld3 =
     (Some (OtherError ''MSFT''), sampleWorld3\<lparr>priceCalls := 2, nowCalls := 2\<rparr>) \<and>
   files (snd (analysis sampleEnv ''config.json'' sampleWorld3)) = files sampleWorld3 \<and>
   stdout (snd (analysis sampleEnv ''config.json'' sampleWorld3)) = [] \<and>
   sent (snd (analysis sampleEnv ''config.json'' sampleWorld3)) = []"
proof -
  have p: "parseConfig sampleWorld3 ''config.json'' = (sampleConfig3, None)"
    by (simp add: parseConfig_def sampleWorld3_def)
  have f: "\<exists>j<length (Investments sampleConfig3).
      snd (GetPrice sampleEnv (priceCalls sampleWorld3 + j)
        (Symbol (Investments sampleConfig3 ! j))) \<noteq> None"
    by (rule exI [of _ 1]) (simp add: sampleConfig3_def sampleEnv_def sampleMSFT_def)
  from analysis_aborts [OF p f]
  have u: "files (snd (analysis sampleEnv ''config.json'' sampleWorld3)) = files sampleWorld3"
    and o: "stdout (snd (analysis sampleEnv ''config.json'' sampleWorld3)) = stdout sampleWorld3"
    and s: "sent (snd (analysis sampleEnv ''config.json'' sampleWorld3)) = sent sampleWorld3"
    by blast+
  have o': "stdout (snd (analysis sampleEnv ''config.json'' sampleWorld3)) = []"
    using o by (simp add: sampleWorld3_def)
  have s': "sent (snd (analysis sampleEnv ''config.json'' sampleWorld3)) = []"
    using s by (simp add: sampleWorld3_def)
  from p f analysis_sampleWorld3 u o' s' show ?thesis
    by blast
qed

section \<open>Adding an investment\<close>













section \<open>The rate at the time of purchase\<close>

lemma Sub_same: "Sub t t = 0"
  by (simp add: Sub_def)

lemma round64_0: "round64 0 = Zero False"
  by (simp add: round64_def)

lemma Seconds_0: "Seconds 0 = Zero False"
  by (simp add: Seconds_def quo_def rem_def float64_of_int_def round64_0)

text \<open>With the purchase at the time of the calculation, the elapsed years are \<open>+0\<close>.\<close>

lemma elapsed_0: "fdiv (Seconds (Sub t t)) secondsPerYear = Zero False"
  by (simp add: Sub_same Seconds_0 secondsPerYear_def)

text \<open>\<^verbatim>\<open>math.Pow(x, +Inf)\<close> is decided by its special cases alone.\<close>

lemma Pow_PInf:
  "Pow pw x (Infty False) =
     (if x = Fin 1 \<or> x = Fin (- 1) then Fin 1
      else if isNaN x then NaN
      else if abs_lt_1 x then Zero False
      else Infty False)"
  by (cases x) (auto simp: Pow_def isZero_def isNaN_def isInf_def powZero_def)

lemma round64_m100: "round64 (- 100) = Fin (- 100)"
  by code_simp

lemma rate_of_pow:
  "fmul (Fin 100) (fsub (Fin 1) (Fin 1)) = Zero False"
  "fmul (Fin 100) (fsub NaN (Fin 1)) = NaN"
  "fmul (Fin 100) (fsub (Zero False) (Fin 1)) = Fin (- 100)"
  "fmul (Fin 100) (fsub (Infty False) (Fin 1)) = Infty False"
  by (simp_all add: fsub_def round64_0 round64_m100 signed_def)

lemma currentRate_zero_elapsed:
  assumes "Date i = now"
  shows "currentRate E now i price =
     (let x = fdiv price (fdiv (Total i) (Units i))
      in if x = Fin 1 \<or> x = Fin (- 1) then Zero False
         else if isNaN x then NaN
         else if abs_lt_1 x then Fin (- 100)
         else Infty False)"
  using assms
  by (simp add: currentRate_def elapsed_0 Pow_PInf rate_of_pow Let_def)

text \<open>
  C4, as the code has it. When the purchase date is the time of the calculation, the
  exponent \<open>1 / d\<close> is \<open>+Inf\<close> and the rate depends only on the ratio
  \<open>x = price / (Total / Units)\<close>: it is NaN when \<open>x\<close> is NaN and \<open>+Inf\<close> when
  \<open>|x| > 1\<close>, but the finite \<open>-100\<close> when \<open>|x| < 1\<close> and the finite \<open>0\<close> when \<open>x\<close>
  is \<open>1\<close> or \<open>-1\<close>. The value of the expression is returned as it is: nothing is
  refused and nothing is clamped.
\<close>

theorem currentRate_at_purchase_time:
  assumes "Date i = now"
  shows "currentRate E now i price =
           (let x = fdiv price (fdiv (Total i) (Units i))
            in if x = Fin 1 \<or> x = Fin (- 1) then Zero False
               else if isNaN x then NaN
               else if abs_lt_1 x then Fin (- 100)
               else Infty False) \<and>
         (isFinite (currentRate E now i price) \<longleftrightarrow>
            (let x = fdiv price (fdiv (Total i) (Units i))
             in x = Fin 1 \<or> x = Fin (- 1) \<or> abs_lt_1 x))"
proof -
  define x where "x = fdiv price (fdiv (Total i) (Units i))"
  have r: "currentRate E now i price =
      (if x = Fin 1 \<or> x = Fin (- 1) then Zero False
       else if isNaN x then NaN
       else if abs_lt_1 x then Fin (- 100)
       else Infty False)"
    using currentRate_zero_elapsed [OF assms, of E price] by (simp add: x_def Let_def)
  have "isFinite (currentRate E now i price) \<longleftrightarrow> (x = Fin 1 \<or> x = Fin (- 1) \<or> abs_lt_1 x)"
    unfolding r by (cases x) (auto simp: isFinite_def isNaN_def)
  with r show ?thesis
    by (simp add: x_def Let_def)
qed

lemma fdiv_100_10: "fdiv (Fin 100) (Fin 10) = Fin 10"
  by code_simp

lemma fdiv_20_10: "fdiv (Fin 20) (Fin 10) = Fin 2"
  by code_simp

lemma fdiv_5_10: "fdiv (Fin 5) (Fin 10) = Fin (1 / 2)"
  by code_simp

theorem currentRate_at_purchase_time_witness:
  "Date sampleBoughtNow = mar12_2024 \<and>
   currentRate sampleEnv mar12_2024 sampleBoughtNow (Fin 20) = Infty False \<and>
   \<not> isFinite (currentRate sampleEnv mar12_2024 sampleBoughtNow (Fin 20))"
proof -
  have d: "Date sampleBoughtNow = mar12_2024"
    by (simp add: sampleBoughtNow_def)
  have x: "fdiv (Fin 20)
      (fdiv (Total sampleBoughtNow) (Units sampleBoughtNow))
      = Fin 2"
    by (simp add: sampleBoughtNow_def fdiv_100_10 fdiv_20_10 del: fdiv.simps)
  show ?thesis
    using d currentRate_at_purchase_time [OF d, of sampleEnv "Fin 20"]
    by (simp add: x Let_def isNaN_def isFinite_def)
qed

text \<open>
  The claim C4 as stated fails for a price below the cost of a unit: bought now for 100
  the 10 units and quoted at 5, the rate is \<open>-100\<close>, a finite number.
\<close>

theorem currentRate_at_purchase_time_counterexample:
  "Date sampleBoughtNow = mar12_2024 \<and>
   currentRate sampleEnv mar12_2024 sampleBoughtNow (Fin 5) = Fin (- 100) \<and>
   isFinite (currentRate sampleEnv mar12_2024 sampleBoughtNow (Fin 5))"
proof -
  have d: "Date sampleBoughtNow = mar12_2024"
    by (simp add: sampleBoughtNow_def)
  have x: "fdiv (Fin 5)
      (fdiv (Total sampleBoughtNow) (Units sampleBoughtNow))
      = Fin (1 / 2)"
    by (simp add: sampleBoughtNow_def fdiv_100_10 fdiv_5_10 del: fdiv.simps)
  have "currentRate sampleEnv mar12_2024 sampleBoughtNow (Fin 5) = Fin (- 100)"
    using currentRate_zero_elapsed [OF d, of sampleEnv "Fin 5"]
    by (simp add: x Let_def isNaN_def)
  with d show ?thesis
    by (simp add: isFinite_def)
qed

section \<open>The rate in general\<close>

lemma Sub_in_range:
  assumes "- (2 ^ 63) \<le> unixNano t - unixNano u" and "unixNano t - unixNano u \<le> 2 ^ 63 - 1"
  shows "Sub t u = unixNano t - unixNano u"
  using assms by (simp add: Sub_def Let_def)

lemma Sub_above:
  assumes "2 ^ 63 - 1 < unixNano t - unixNano u"
  shows "Sub t u = 2 ^ 63 - 1"
  using assms by (simp add: Sub_def Let_def)

lemma Sub_below:
  assumes "unixNano t - unixNano u < - (2 ^ 63)"
  shows "Sub t u = - (2 ^ 63)"
  using assms by (simp add: Sub_def Let_def)

text \<open>A negative base with an exponent that is no integer: \<^verbatim>\<open>math.Pow\<close> is NaN.\<close>

lemma Pow_negative_fractional:
  assumes "x < 0" and "of_int \<lfloor>y\<rfloor> \<noteq> y"
  shows "Pow pw (Fin x) (Fin y) = NaN"
proof -
  have "y \<noteq> 1" using assms(2) by auto
  with assms show ?thesis
    by (simp add: Pow_def isZero_def isNaN_def isInf_def)
qed

lemma unixNano_mar12_2024: "unixNano mar12_2024 = 1710235800000000000"
  by (simp add: unixNano_def mar12_2024_def daysFromCivil_def Let_def)

lemma unixNano_jan2_2006: "unixNano jan2_2006 = 1136160000000000000"
  by (simp add: unixNano_def jan2_2006_def daysFromCivil_def Let_def)

lemma unixNano_jan2_1700: "unixNano jan2_1700 = - 8520249600000000000"
  by (simp add: unixNano_def jan2_1700_def daysFromCivil_def Let_def)

text \<open>
  C3, as the code has it. The rate is \<open>100 * (Pow(price / (Total / Units), 1 / years) - 1)\<close>
  in \<^verbatim>\<open>float64\<close> arithmetic, every operation rounded and the power taken by
  \<^verbatim>\<open>math.Pow\<close>, where \<open>years\<close> is the seconds of the duration \<^verbatim>\<open>now.Sub(Date)\<close> divided
  by 31557600. That duration is the difference of the two instants when it fits the
  63 bits of a \<^verbatim>\<open>Duration\<close> of nanoseconds (about 292.47 years either way), and the
  largest or the smallest duration when it does not. Nothing is guarded: with zero
  units the cost of a unit is an infinity, and with a negative base and an exponent
  that is no integer the power is NaN and so is the rate.
\<close>

theorem currentRate_formula:
  "currentRate E now i price =
     fmul (Fin 100)
       (fsub (Pow (powFinite E) (fdiv price (fdiv (Total i) (Units i)))
                (fdiv (Fin 1) (fdiv (Seconds (Sub now (Date i))) (Fin 31557600))))
             (Fin 1)) \<and>
   (- (2 ^ 63) \<le> unixNano now - unixNano (Date i) \<and>
    unixNano now - unixNano (Date i) \<le> 2 ^ 63 - 1
      \<longrightarrow> Sub now (Date i) = unixNano now - unixNano (Date i)) \<and>
   (2 ^ 63 - 1 < unixNano now - unixNano (Date i) \<longrightarrow> Sub now (Date i) = 2 ^ 63 - 1) \<and>
   (unixNano now - unixNano (Date i) < - (2 ^ 63) \<longrightarrow> Sub now (Date i) = - (2 ^ 63)) \<and>
   (Total i = Fin a \<and> Units i = Zero s \<longrightarrow>
      fdiv (Total i) (Units i) = Infty ((a < 0) \<noteq> s)) \<and>
   (x < 0 \<and> of_int \<lfloor>y\<rfloor> \<noteq> y \<longrightarrow>
      Pow (powFinite E) (Fin x) (Fin y) = NaN \<and>
      fmul (Fin 100) (fsub (Pow (powFinite E) (Fin x) (Fin y)) (Fin 1)) = NaN)"
proof (intro conjI impI)
  show "currentRate E now i price =
     fmul (Fin 100)
       (fsub (Pow (powFinite E) (fdiv price (fdiv (Total i) (Units i)))
                (fdiv (Fin 1) (fdiv (Seconds (Sub now (Date i))) (Fin 31557600))))
             (Fin 1))"
    by (simp add: currentRate_def secondsPerYear_def Let_def)
  show "Sub now (Date i) = unixNano now - unixNano (Date i)"
    if "- (2 ^ 63) \<le> unixNano now - unixNano (Date i) \<and>
        unixNano now - unixNano (Date i) \<le> 2 ^ 63 - 1"
    using that by (simp add: Sub_in_range)
  show "Sub now (Date i) = 2 ^ 63 - 1" if "2 ^ 63 - 1 < unixNano now - unixNano (Date i)"
    using that by (rule Sub_above)
  show "Sub now (Date i) = - (2 ^ 63)" if "unixNano now - unixNano (Date i) < - (2 ^ 63)"
    using that by (rule Sub_below)
  show "fdiv (Total i) (Units i) = Infty ((a < 0) \<noteq> s)"
    if "Total i = Fin a \<and> Units i = Zero s"
    using that by simp
  show "Pow (powFinite E) (Fin x) (Fin y) = NaN" if "x < 0 \<and> of_int \<lfloor>y\<rfloor> \<noteq> y"
    using that by (simp add: Pow_negative_fractional)
  show "fmul (Fin 100) (fsub (Pow (powFinite E) (Fin x) (Fin y)) (Fin 1)) = NaN"
    if "x < 0 \<and> of_int \<lfloor>y\<rfloor> \<noteq> y"
    using that by (simp add: Pow_negative_fractional rate_of_pow del: fmul.simps)
qed

theorem currentRate_formula_witness:
  "- (2 ^ 63) \<le> unixNano mar12_2024 - unixNano (Date sampleAAPL) \<and>
   unixNano mar12_2024 - unixNano (Date sampleAAPL) \<le> 2 ^ 63 - 1 \<and>
   Sub mar12_2024 (Date sampleAAPL) = 574075800000000000 \<and>
   2 ^ 63 - 1 < unixNano mar12_2024 - unixNano (Date sampleOld) \<and>
   Sub mar12_2024 (Date sampleOld) = 2 ^ 63 - 1 \<and>
   unixNano jan2_1700 - unixNano (Date sampleBoughtNow) < - (2 ^ 63) \<and>
   Sub jan2_1700 (Date sampleBoughtNow) = - (2 ^ 63) \<and>
   Total (sampleAAPL\<lparr>Units := Zero False\<rparr>) = Fin 100 \<and>
   Units (sampleAAPL\<lparr>Units := Zero False\<rparr>) = Zero False \<and>
   fdiv (Total (sampleAAPL\<lparr>Units := Zero False\<rparr>)) (Units (sampleAAPL\<lparr>Units := Zero False\<rparr>))
     = Infty False \<and>
   (- 8 :: rat) < 0 \<and> of_int \<lfloor>1 / 3 :: rat\<rfloor> \<noteq> (1 / 3 :: rat) \<and>
   Pow (powFinite sampleEnv) (Fin (- 8)) (Fin (1 / 3)) = NaN"
proof -
  have r: "- (2 ^ 63) \<le> unixNano mar12_2024 - unixNano (Date sampleAAPL) \<and>
      unixNano mar12_2024 - unixNano (Date sampleAAPL) \<le> 2 ^ 63 - 1"
    by (simp add: sampleAAPL_def unixNano_mar12_2024 unixNano_jan2_2006)
  have 1: "Sub mar12_2024 (Date sampleAAPL) = 574075800000000000"
    using currentRate_formula [of sampleEnv mar12_2024 sampleAAPL "Fin 5"] r
    by (simp add: sampleAAPL_def unixNano_mar12_2024 unixNano_jan2_2006)
  have a: "2 ^ 63 - 1 < unixNano mar12_2024 - unixNano (Date sampleOld)"
    by (simp add: sampleOld_def unixNano_mar12_2024 unixNano_jan2_1700)
  have 2: "Sub mar12_2024 (Date sampleOld) = 2 ^ 63 - 1"
    using currentRate_formula [of sampleEnv mar12_2024 sampleOld "Fin 5"] a by blast
  have b: "unixNano jan2_1700 - unixNano (Date sampleBoughtNow) < - (2 ^ 63)"
    by (simp add: sampleBoughtNow_def unixNano_mar12_2024 unixNano_jan2_1700)
  have 3: "Sub jan2_1700 (Date sampleBoughtNow) = - (2 ^ 63)"
    using currentRate_formula [of sampleEnv jan2_1700 sampleBoughtNow "Fin 5"] b by blast
  have z: "Total (sampleAAPL\<lparr>Units := Zero False\<rparr>) = Fin 100 \<and>
      Units (sampleAAPL\<lparr>Units := Zero False\<rparr>) = Zero False"
    by (simp add: sampleAAPL_def)
  have "fdiv (Total (sampleAAPL\<lparr>Units := Zero False\<rparr>)) (Units (sampleAAPL\<lparr>Units := Zero False\<rparr>))
      = Infty (((100::rat) < 0) \<noteq> False)"
    using currentRate_formula [of sampleEnv mar12_2024 "sampleAAPL\<lparr>Units := Zero False\<rparr>"
      "Fin 5" 100 False] z by blast
  then have 4: "fdiv (Total (sampleAAPL\<lparr>Units := Zero False\<rparr>))
      (Units (sampleAAPL\<lparr>Units := Zero False\<rparr>)) = Infty False"
    by simp
  have "\<lfloor>1 / 3 :: rat\<rfloor> = 0"
    by (rule floor_unique) simp_all
  then have f: "(- 8 :: rat) < 0 \<and> of_int \<lfloor>1 / 3 :: rat\<rfloor> \<noteq> (1 / 3 :: rat)"
    by simp
  have 5: "Pow (powFinite sampleEnv) (Fin (- 8)) (Fin (1 / 3)) = NaN"
    using currentRate_formula [of sampleEnv mar12_2024 sampleAAPL "Fin 5" 100 False "- 8" "1 / 3"]
      f by blast
  from r 1 a 2 b 3 z 4 f 5 show ?thesis
    by blast
qed

text \<open>
  The claim C3 as stated fails for a purchase more than about 292 years before the
  calculation: for an investment dated 2 January 1700 and the clock at 12 March 2024,
  the instants are 10230485400 seconds apart, but the duration the code divides is the
  largest one, 9223372036.854775807 seconds.
\<close>

theorem currentRate_formula_counterexample:
  "unixNano mar12_2024 - unixNano jan2_1700 = 10230485400000000000 \<and>
   Sub mar12_2024 jan2_1700 = 9223372036854775807 \<and>
   Seconds (Sub mar12_2024 jan2_1700) \<noteq> Seconds (unixNano mar12_2024 - unixNano jan2_1700)"
proof -
  have d: "unixNano mar12_2024 - unixNano jan2_1700 = 10230485400000000000"
    by (simp add: unixNano_mar12_2024 unixNano_jan2_1700)
  have s: "Sub mar12_2024 jan2_1700 = 9223372036854775807"
    by (simp add: Sub_def Let_def d)
  have a: "Seconds 9223372036854775807 = Fin (4835703278458517 / 524288)"
    by code_simp
  have b: "Seconds 10230485400000000000 = Fin 10230485400"
    by code_simp
  show ?thesis
    by (simp add: d s a b)
qed

end
